theory Spec2Isabelle
  imports Complex_Main "HOL-Library.Multiset" "HOL-Library.Char_ord" "HOL-Library.List_Lexorder"
begin

section \<open>Python values\<close>

text \<open>
  The screener reads two kinds of structured data: the \<open>info\<close> dictionary of the
  financial-data provider and the JSON body of the brokerage endpoint. Both are Python
  values. A Python \<open>float\<close> is a real number or one of the three special values; every
  operation the program applies to a float (comparison with zero, truncation by
  \<open>int\<close>) is exact on the real number the float denotes. A \<open>dict\<close> is an association
  list read with \<open>map_of\<close>. Text is a list of characters with code points below 256.
\<close>

datatype pyfloat = Finite real | PosInf | NegInf | NaN

datatype pyval =
    PNone
  | PBool bool
  | PInt int
  | PFloat pyfloat
  | PStr string
  | PList "pyval list"
  | PDict "(string \<times> pyval) list"

text \<open>The exceptions (all subclasses of \<open>Exception\<close>) that occur in a run.\<close>

datatype py_error =
    ConnectionError
  | HTTPError int
  | JSONDecodeError
  | AttributeError
  | TypeError
  | ValueError
  | OverflowError
  | OSError
  | OtherError string

text \<open>\<open>bool(v)\<close>: Python truthiness.\<close>

fun truthy :: "pyval \<Rightarrow> bool" where
  "truthy PNone = False"
| "truthy (PBool b) = b"
| "truthy (PInt i) = (i \<noteq> 0)"
| "truthy (PFloat f) = (f \<noteq> Finite 0)"
| "truthy (PStr s) = (s \<noteq> [])"
| "truthy (PList xs) = (xs \<noteq> [])"
| "truthy (PDict d) = (d \<noteq> [])"

text \<open>\<open>d.get(k)\<close> on a dictionary: the value, or \<open>None\<close> when the key is absent.\<close>

definition dict_get :: "(string \<times> pyval) list \<Rightarrow> string \<Rightarrow> pyval" where
  "dict_get d k = (case map_of d k of None \<Rightarrow> PNone | Some v \<Rightarrow> v)"

text \<open>\<open>v.get(k)\<close> on any value: only a dictionary has the method.\<close>

fun py_get :: "pyval \<Rightarrow> string \<Rightarrow> py_error + pyval" where
  "py_get (PDict d) k = Inr (dict_get d k)"
| "py_get _ k = Inl AttributeError"

text \<open>\<open>isinstance(v, (int, float))\<close>; \<open>bool\<close> is a subclass of \<open>int\<close>.\<close>

fun is_int_or_float :: "pyval \<Rightarrow> bool" where
  "is_int_or_float (PBool _) = True"
| "is_int_or_float (PInt _) = True"
| "is_int_or_float (PFloat _) = True"
| "is_int_or_float _ = False"

text \<open>\<open>v > 0\<close> for a float and for a number.\<close>

fun float_gt_zero :: "pyfloat \<Rightarrow> bool" where
  "float_gt_zero (Finite x) = (0 < x)"
| "float_gt_zero PosInf = True"
| "float_gt_zero NegInf = False"
| "float_gt_zero NaN = False"

fun gt_zero :: "pyval \<Rightarrow> bool" where
  "gt_zero (PBool b) = b"
| "gt_zero (PInt i) = (0 < i)"
| "gt_zero (PFloat f) = float_gt_zero f"
| "gt_zero _ = False"

text \<open>
  \<open>int(x)\<close> of a float truncates towards zero; an infinity raises \<open>OverflowError\<close> and
  a NaN raises \<open>ValueError\<close>.
\<close>

fun int_of_float :: "pyfloat \<Rightarrow> py_error + int" where
  "int_of_float (Finite x) = Inr (if 0 \<le> x then \<lfloor>x\<rfloor> else \<lceil>x\<rceil>)"
| "int_of_float PosInf = Inl OverflowError"
| "int_of_float NegInf = Inl OverflowError"
| "int_of_float NaN = Inl ValueError"

fun py_int :: "pyval \<Rightarrow> py_error + int" where
  "py_int (PBool b) = Inr (if b then 1 else 0)"
| "py_int (PInt i) = Inr i"
| "py_int (PFloat f) = int_of_float f"
| "py_int _ = Inl TypeError"

section \<open>Per-symbol enrichment: \<open>fetch_float\<close>\<close>

text \<open>The dictionary \<open>fetch_float\<close> returns, with its five keys.\<close>

record enrichment =
  symbol :: string
  float :: "int option"
  shortName :: pyval
  exchange :: pyval
  marketCap :: pyval

text \<open>
  The first loop, over the keys \<open>floatShares, sharesFloat, float, sharesOutstanding\<close>:
  the first value that is an \<open>int\<close> or a \<open>float\<close> and greater than zero is converted
  with \<open>int\<close> and the loop breaks. The conversion is not guarded, so its exception
  leaves the loop.
\<close>

definition primary_keys :: "string list" where
  "primary_keys = [''floatShares'', ''sharesFloat'', ''float'', ''sharesOutstanding'']"

definition secondary_keys :: "string list" where
  "secondary_keys = [''floatShares'', ''sharesOutstanding'']"

fun numeric_loop :: "(string \<times> pyval) list \<Rightarrow> string list \<Rightarrow> py_error + int option" where
  "numeric_loop info [] = Inr None"
| "numeric_loop info (k # ks) =
     (let v = dict_get info k in
      if is_int_or_float v \<and> gt_zero v then
        (case py_int v of Inl e \<Rightarrow> Inl e | Inr n \<Rightarrow> Inr (Some n))
      else numeric_loop info ks)"

text \<open>
  \<open>int(float(v.replace(",", "")))\<close> for a string \<open>v\<close>. The builtin \<open>float\<close> on a string
  is a parameter \<open>flt\<close> of the model: \<open>None\<close> is its \<open>ValueError\<close>.
\<close>

definition strip_commas :: "string \<Rightarrow> string" where
  "strip_commas v = filter (\<lambda>c. c \<noteq> CHR '','') v"

definition parse_count :: "(string \<Rightarrow> pyfloat option) \<Rightarrow> string \<Rightarrow> py_error + int" where
  "parse_count flt v =
     (case flt (strip_commas v) of None \<Rightarrow> Inl ValueError | Some f \<Rightarrow> int_of_float f)"

text \<open>
  The second loop, over \<open>floatShares, sharesOutstanding\<close>, entered when the first found
  nothing: a string value is re-parsed, and accepted when the integer is greater than
  zero; the inner \<open>try\<close> swallows every exception of the conversion.
\<close>

fun string_loop :: "(string \<Rightarrow> pyfloat option) \<Rightarrow> (string \<times> pyval) list \<Rightarrow> string list \<Rightarrow> int option" where
  "string_loop flt info [] = None"
| "string_loop flt info (k # ks) =
     (case dict_get info k of
        PStr s \<Rightarrow>
          (case parse_count flt s of
             Inr fv \<Rightarrow> if 0 < fv then Some fv else string_loop flt info ks
           | Inl e \<Rightarrow> string_loop flt info ks)
      | _ \<Rightarrow> string_loop flt info ks)"

text \<open>
  The body of the \<open>try\<close>. \<open>yf\<close> is what \<open>yf.Ticker(symbol).info\<close> does for this symbol:
  it raises, or it returns a value; \<open>info = t.info or {}\<close> replaces a falsy value by the
  empty dictionary; \<open>info.get\<close> raises on a value that is not a dictionary.
\<close>

definition fetch_float_body ::
  "(string \<Rightarrow> pyfloat option) \<Rightarrow> py_error + pyval \<Rightarrow> string \<Rightarrow> py_error + enrichment" where
  "fetch_float_body flt yf ticker =
     (case yf of
        Inl e \<Rightarrow> Inl e
      | Inr t_info \<Rightarrow>
          (case (if truthy t_info then t_info else PDict []) of
             PDict info \<Rightarrow>
               (case numeric_loop info primary_keys of
                  Inl e \<Rightarrow> Inl e
                | Inr found \<Rightarrow>
                    let float_shares =
                          (if found = None then string_loop flt info secondary_keys else found)
                    in Inr \<lparr> symbol = ticker, float = float_shares,
                             shortName = dict_get info ''shortName'',
                             exchange = dict_get info ''exchange'',
                             marketCap = dict_get info ''marketCap'' \<rparr>)
           | _ \<Rightarrow> Inl AttributeError))"

text \<open>The record of the \<open>except Exception\<close> branch.\<close>

definition failed_record :: "string \<Rightarrow> enrichment" where
  "failed_record ticker =
     \<lparr> symbol = ticker, float = None, shortName = PNone, exchange = PNone, marketCap = PNone \<rparr>"

definition fetch_float :: "(string \<Rightarrow> pyfloat option) \<Rightarrow> py_error + pyval \<Rightarrow> string \<Rightarrow> enrichment" where
  "fetch_float flt yf ticker =
     (case fetch_float_body flt yf ticker of Inl e \<Rightarrow> failed_record ticker | Inr r \<Rightarrow> r)"

section \<open>HTTP\<close>

text \<open>
  What the program reads of a \<open>requests\<close> response: the status code, \<open>r.text\<close>, and
  what \<open>r.json()\<close> does (the parsed body, or the parser's exception). The network is a
  function from the URL to what \<open>requests.get\<close> does there: it raises or it returns a
  response.
\<close>

record response =
  status_code :: int
  r_text :: string
  r_json :: "py_error + pyval"

type_synonym network = "string \<Rightarrow> py_error + response"

text \<open>\<open>r.raise_for_status()\<close> raises \<open>HTTPError\<close> for the statuses 400 to 599.\<close>

definition raise_for_status :: "response \<Rightarrow> py_error + unit" where
  "raise_for_status r =
     (if 400 \<le> status_code r \<and> status_code r < 600 then Inl (HTTPError (status_code r))
      else Inr ())"

section \<open>Per-symbol eligibility: \<open>robinhood_has_symbol\<close>\<close>

definition ROBINHOOD_INSTRUMENTS :: "string \<Rightarrow> string" where
  "ROBINHOOD_INSTRUMENTS ticker = ''https://api.robinhood.com/instruments/?symbol='' @ ticker"

definition robinhood_has_symbol_body :: "network \<Rightarrow> string \<Rightarrow> py_error + bool" where
  "robinhood_has_symbol_body net ticker =
     (case net (ROBINHOOD_INSTRUMENTS ticker) of
        Inl e \<Rightarrow> Inl e
      | Inr r \<Rightarrow>
          if status_code r \<noteq> 200 then Inr False
          else (case r_json r of
                  Inl e \<Rightarrow> Inl e
                | Inr data \<Rightarrow>
                    (case py_get data ''results'' of
                       Inl e \<Rightarrow> Inl e
                     | Inr results \<Rightarrow> Inr (truthy results))))"

definition robinhood_has_symbol :: "network \<Rightarrow> string \<Rightarrow> bool" where
  "robinhood_has_symbol net ticker =
     (case robinhood_has_symbol_body net ticker of Inl e \<Rightarrow> False | Inr ok \<Rightarrow> ok)"

section \<open>Symbol source: \<open>download_symbol_list\<close>\<close>

text \<open>
  \<open>str.splitlines\<close>: a line ends at a line boundary (\<open>\n\<close>, \<open>\r\<close>, \<open>\r\n\<close>, \<open>\v\<close>,
  \<open>\f\<close>, \<open>\x1c\<close>, \<open>\x1d\<close>, \<open>\x1e\<close>, \<open>\x85\<close>); the boundaries are dropped, and a last
  line without one is kept unless it is empty.
\<close>

definition is_linebreak :: "char \<Rightarrow> bool" where
  "is_linebreak c =
     (c \<in> set [CHR 0x0A, CHR 0x0B, CHR 0x0C, CHR 0x0D, CHR 0x1C, CHR 0x1D, CHR 0x1E, CHR 0x85])"

fun splitlines_from :: "string \<Rightarrow> string \<Rightarrow> string list" where
  "splitlines_from cur [] = (if cur = [] then [] else [cur])"
| "splitlines_from cur [c] = (if is_linebreak c then [cur] else [cur @ [c]])"
| "splitlines_from cur (c # d # cs) =
     (if c = CHR 0x0D \<and> d = CHR 0x0A then cur # splitlines_from [] cs
      else if is_linebreak c then cur # splitlines_from [] (d # cs)
      else splitlines_from (cur @ [c]) (d # cs))"

definition splitlines :: "string \<Rightarrow> string list" where
  "splitlines s = splitlines_from [] s"

text \<open>\<open>line.startswith(p)\<close>.\<close>

definition startswith :: "string \<Rightarrow> string \<Rightarrow> bool" where
  "startswith line p = (take (length p) line = p)"

text \<open>\<open>line.split(d)\<close> for a one-character separator: never the empty list.\<close>

fun split_on :: "char \<Rightarrow> string \<Rightarrow> string list" where
  "split_on d [] = [[]]"
| "split_on d (c # cs) =
     (if c = d then [] # split_on d cs
      else (case split_on d cs of [] \<Rightarrow> [[c]] | p # ps \<Rightarrow> (c # p) # ps))"

text \<open>\<open>s.strip()\<close>: the whitespace characters below code point 256.\<close>

definition is_space :: "char \<Rightarrow> bool" where
  "is_space c =
     (c \<in> set [CHR 0x09, CHR 0x0A, CHR 0x0B, CHR 0x0C, CHR 0x0D, CHR 0x1C, CHR 0x1D,
               CHR 0x1E, CHR 0x1F, CHR 0x20, CHR 0x85, CHR 0xA0])"

definition strip :: "string \<Rightarrow> string" where
  "strip s = rev (dropWhile is_space (rev (dropWhile is_space s)))"

definition NASDAQ_LISTED_URL :: string where
  "NASDAQ_LISTED_URL = ''https://ftp.nasdaqtrader.com/dynamic/SymDir/nasdaqlisted.txt''"

definition OTHER_LISTED_URL :: string where
  "OTHER_LISTED_URL = ''https://ftp.nasdaqtrader.com/dynamic/SymDir/otherlisted.txt''"

text \<open>The inner loop over \<open>lines[1:]\<close>, adding to the set \<open>symbols\<close>.\<close>

fun scan_lines :: "string list \<Rightarrow> string set \<Rightarrow> string set" where
  "scan_lines [] symbols = symbols"
| "scan_lines (line # rest) symbols =
     (if line = [] \<or> startswith line ''File Creation'' then symbols
      else (case split_on CHR ''|'' line of
              [] \<Rightarrow> scan_lines rest symbols
            | p # ps \<Rightarrow>
                (let s = strip p in
                 if s \<noteq> [] \<and> s \<noteq> ''Symbol'' then scan_lines rest (insert s symbols)
                 else scan_lines rest symbols)))"

text \<open>The outer loop over the two URLs: a failed request or an error status leaves it.\<close>

fun fetch_lists :: "network \<Rightarrow> string list \<Rightarrow> string set \<Rightarrow> py_error + string set" where
  "fetch_lists net [] symbols = Inr symbols"
| "fetch_lists net (url # urls) symbols =
     (case net url of
        Inl e \<Rightarrow> Inl e
      | Inr r \<Rightarrow>
          (case raise_for_status r of
             Inl e \<Rightarrow> Inl e
           | Inr u \<Rightarrow> fetch_lists net urls (scan_lines (drop 1 (splitlines (r_text r))) symbols)))"

definition download_symbol_list :: "network \<Rightarrow> py_error + string list" where
  "download_symbol_list net =
     (case fetch_lists net [NASDAQ_LISTED_URL, OTHER_LISTED_URL] {} of
        Inl e \<Rightarrow> Inl e
      | Inr symbols \<Rightarrow> Inr (sorted_list_of_set symbols))"

section \<open>The worker pool\<close>

text \<open>
  \<open>ThreadPoolExecutor(max_workers=n)\<close> raises \<open>ValueError\<close> unless \<open>n\<close> is positive.
  Beyond that the pool size decides nothing but the order in which the submitted calls
  complete.
\<close>

definition ThreadPoolExecutor :: "int \<Rightarrow> py_error + unit" where
  "ThreadPoolExecutor max_workers = (if max_workers \<le> 0 then Inl ValueError else Inr ())"

text \<open>
  The dictionary \<open>{ex.submit(fn, x): x for x in items}\<close>: one future for each item, in
  the order of submission. A future holds what its one call of the worker did, a value or
  an exception, beside the item it was submitted for.
\<close>

definition submit_all :: "('a \<Rightarrow> py_error + 'b) \<Rightarrow> 'a list \<Rightarrow> ((py_error + 'b) \<times> 'a) list" where
  "submit_all fn items = map (\<lambda>x. (fn x, x)) items"

definition remove_nth :: "nat \<Rightarrow> 'a list \<Rightarrow> 'a list" where
  "remove_nth i xs = take i xs @ drop (Suc i) xs"

text \<open>
  \<open>as_completed(futures)\<close> yields every future once, in the order of completion, which
  the scheduler decides. The schedule is a list of picks: each pick names, by its
  position among the futures still pending, the one that completes next; when the picks
  run out the rest complete in the order of submission. Every list of picks is a
  schedule, and every order of completion has one (\<open>as_completed_any_order\<close> below).
\<close>

function as_completed :: "nat list \<Rightarrow> 'a list \<Rightarrow> 'a list" where
  "as_completed picks [] = []"
| "as_completed [] (f # fs) = f # as_completed [] fs"
| "as_completed (k # ks) (f # fs) =
     (f # fs) ! (k mod length (f # fs)) # as_completed ks (remove_nth (k mod length (f # fs)) (f # fs))"
  by pat_completeness auto
termination
  by (relation "measure (\<lambda>(picks, fs). length fs)") (auto simp: remove_nth_def)

text \<open>
  Lines 110 to 116 of \<open>main\<close>, for any worker:
  \<^verbatim>\<open>
  results = []
  with ThreadPoolExecutor(max_workers=args.workers) as ex:
      futures = {ex.submit(fetch_float, sym): sym for sym in symbols}
      for f in tqdm(as_completed(futures), total=len(futures)):
          res = f.result()
          results.append(res)
  \<close>
  \<open>f.result()\<close> raises what the worker raised.
\<close>

fun collect_results :: "((py_error + 'b) \<times> 'a) list \<Rightarrow> 'b list \<Rightarrow> py_error + 'b list" where
  "collect_results [] results = Inr results"
| "collect_results ((Inl e, x) # fs) results = Inl e"
| "collect_results ((Inr res, x) # fs) results = collect_results fs (results @ [res])"

definition run_batch ::
  "int \<Rightarrow> ('a \<Rightarrow> py_error + 'b) \<Rightarrow> nat list \<Rightarrow> 'a list \<Rightarrow> py_error + 'b list" where
  "run_batch max_workers fn picks items =
     (case ThreadPoolExecutor max_workers of
        Inl e \<Rightarrow> Inl e
      | Inr u \<Rightarrow> collect_results (as_completed picks (submit_all fn items)) [])"

section \<open>Filter, sort, report: \<open>main\<close>\<close>

record args =
  cutoff :: int
  robinhood :: bool
  output_file :: string
  workers :: int
  limit :: int

text \<open>Lines 118 to 125: the filter by float value.\<close>

fun float_filter :: "int \<Rightarrow> enrichment list \<Rightarrow> enrichment list \<Rightarrow> enrichment list" where
  "float_filter c [] filtered = filtered"
| "float_filter c (r # results) filtered =
     (case float r of
        None \<Rightarrow> float_filter c results filtered
      | Some fval \<Rightarrow>
          if fval \<le> c then float_filter c results (filtered @ [r])
          else float_filter c results filtered)"

text \<open>The test a record passes to be kept by the filter.\<close>

definition passes :: "int \<Rightarrow> enrichment \<Rightarrow> bool" where
  "passes c r = (case float r of None \<Rightarrow> False | Some fval \<Rightarrow> fval \<le> c)"

text \<open>
  Lines 128 to 141: the optional filter by tradability. The loop takes the futures as they
  complete, reads the row of each from the dictionary, and keeps the row when the result
  is true; an exception of \<open>f.result()\<close> counts as false.
\<close>

fun rh_collect :: "((py_error + bool) \<times> enrichment) list \<Rightarrow> enrichment list \<Rightarrow> enrichment list" where
  "rh_collect [] rh_filtered = rh_filtered"
| "rh_collect ((f, r) # fs) rh_filtered =
     (let ok = (case f of Inl e \<Rightarrow> False | Inr b \<Rightarrow> b) in
      if ok then rh_collect fs (rh_filtered @ [r]) else rh_collect fs rh_filtered)"

text \<open>
  The stage returns the rows kept and, as the record of its effect, the symbols for which
  \<open>robinhood_has_symbol\<close> was submitted to the pool.
\<close>

definition rh_stage ::
  "int \<Rightarrow> network \<Rightarrow> nat list \<Rightarrow> enrichment list \<Rightarrow> py_error + (enrichment list \<times> string list)" where
  "rh_stage w net picks filtered =
     (case ThreadPoolExecutor (max 4 w) of
        Inl e \<Rightarrow> Inl e
      | Inr u \<Rightarrow>
          (let futures = submit_all (\<lambda>r. Inr (robinhood_has_symbol net (symbol r))) filtered in
           Inr (rh_collect (as_completed picks futures) [], map (\<lambda>(f, r). symbol r) futures)))"

text \<open>
  The sort key \<open>x["float"] or float("inf")\<close>: an integer, or the float infinity, which is
  above every integer. A float that is \<open>None\<close> or \<open>0\<close> is falsy.
\<close>

datatype float_key = Num int | Inf

instantiation float_key :: linorder
begin

fun less_eq_float_key :: "float_key \<Rightarrow> float_key \<Rightarrow> bool" where
  "less_eq_float_key (Num a) (Num b) = (a \<le> b)"
| "less_eq_float_key (Num a) Inf = True"
| "less_eq_float_key Inf (Num b) = False"
| "less_eq_float_key Inf Inf = True"

definition less_float_key :: "float_key \<Rightarrow> float_key \<Rightarrow> bool" where
  "less_float_key x y = (x \<le> y \<and> \<not> y \<le> x)"

instance
proof
  fix x y z :: float_key
  show "(x < y) = (x \<le> y \<and> \<not> y \<le> x)"
    by (simp add: less_float_key_def)
  show "x \<le> x"
    by (cases x) simp_all
  show "x \<le> y \<Longrightarrow> y \<le> z \<Longrightarrow> x \<le> z"
    by (cases x; cases y; cases z) simp_all
  show "x \<le> y \<Longrightarrow> y \<le> x \<Longrightarrow> x = y"
    by (cases x; cases y) simp_all
  show "x \<le> y \<or> y \<le> x"
    by (cases x; cases y) auto
qed

end

definition float_or_inf :: "enrichment \<Rightarrow> float_key" where
  "float_or_inf x = (case float x of None \<Rightarrow> Inf | Some v \<Rightarrow> if v \<noteq> 0 then Num v else Inf)"

text \<open>
  Lines 118 to 144: from the collected results to the list that is written and printed.
  \<open>list.sort\<close> is a stable sort by the key.
\<close>

definition report_rows ::
  "args \<Rightarrow> network \<Rightarrow> nat list \<Rightarrow> enrichment list \<Rightarrow> py_error + (enrichment list \<times> string list)" where
  "report_rows a net picks results =
     (let filtered = float_filter (cutoff a) results [] in
      case (if robinhood a then rh_stage (workers a) net picks filtered else Inr (filtered, [])) of
        Inl e \<Rightarrow> Inl e
      | Inr (filtered', checked) \<Rightarrow> Inr (sort_key float_or_inf filtered', checked))"

text \<open>
  The statements of \<open>main\<close> that write: the prints to the console, the two progress
  bars, and the CSV file. What is written depends on the data, and any of them can
  raise: a file that cannot be opened, a closed or full device, a string the encoding
  refuses, an integer too long to be converted to decimal digits.
\<close>

datatype out_action =
    PrintDownloading
  | PrintSymbolsToCheck nat
  | PrintFetching
  | ShowProgress nat
  | PrintChecking
  | OpenOutput string
  | WriteHeader
  | WriteRow enrichment
  | CloseOutput
  | PrintFound nat int
  | PrintRow enrichment
  | PrintSaved string

text \<open>
  Everything outside the program that a run depends on: the network, the data provider,
  the builtin \<open>float\<close> on strings, the two orders of completion, and what each writing
  statement does, \<open>None\<close> when it returns and the exception when it raises.
\<close>

record world =
  requests_get :: network
  yf_info :: "string \<Rightarrow> py_error + pyval"
  float_of_str :: "string \<Rightarrow> pyfloat option"
  completion1 :: "nat list"
  completion2 :: "nat list"
  emit :: "out_action \<Rightarrow> py_error option"

text \<open>
  What a run that ends normally has done: the symbols submitted to \<open>fetch_float\<close>, the
  symbols submitted to \<open>robinhood_has_symbol\<close>, and the rows written to the CSV file and
  printed.
\<close>

record run =
  fetched :: "string list"
  checked :: "string list"
  report :: "enrichment list"

text \<open>Writing statements one after the other: the first exception ends them.\<close>

fun emit_all :: "world \<Rightarrow> out_action list \<Rightarrow> py_error option" where
  "emit_all w [] = None"
| "emit_all w (act # acts) =
     (case emit w act of Some e \<Rightarrow> Some e | None \<Rightarrow> emit_all w acts)"

text \<open>
  Lines 147 to 151: the \<open>with\<close> block of the CSV file. The file is closed also when a
  write raised, and an exception of the closing replaces that of the write.
\<close>

definition write_csv :: "world \<Rightarrow> string \<Rightarrow> enrichment list \<Rightarrow> py_error option" where
  "write_csv w path rows =
     (case emit w (OpenOutput path) of
        Some e \<Rightarrow> Some e
      | None \<Rightarrow>
          (case emit w CloseOutput of
             Some e \<Rightarrow> Some e
           | None \<Rightarrow> emit_all w (WriteHeader # map WriteRow rows)))"

text \<open>
  Lines 155 and 156 print the first hundred rows. The format \<open>{r['float']:,}\<close> raises
  \<open>TypeError\<close> on \<open>None\<close>.
\<close>

fun print_rows :: "world \<Rightarrow> enrichment list \<Rightarrow> py_error option" where
  "print_rows w [] = None"
| "print_rows w (r # rs) =
     (case float r of
        None \<Rightarrow> Some TypeError
      | Some v \<Rightarrow> (case emit w (PrintRow r) of Some e \<Rightarrow> Some e | None \<Rightarrow> print_rows w rs))"

text \<open>Lines 146 to 157: the CSV file, the count, the rows, the name of the file.\<close>

definition write_report :: "world \<Rightarrow> args \<Rightarrow> enrichment list \<Rightarrow> py_error option" where
  "write_report w a rows =
     (case write_csv w (output_file a) rows of
        Some e \<Rightarrow> Some e
      | None \<Rightarrow>
          (case emit w (PrintFound (length rows) (cutoff a)) of
             Some e \<Rightarrow> Some e
           | None \<Rightarrow>
               (case print_rows w (take 100 rows) of
                  Some e \<Rightarrow> Some e
                | None \<Rightarrow> emit w (PrintSaved (output_file a)))))"

text \<open>
  Line 129 and the progress bar of line 133, written when the tradability filter is
  requested.
\<close>

definition announce_check :: "world \<Rightarrow> args \<Rightarrow> enrichment list \<Rightarrow> py_error option" where
  "announce_check w a results =
     (if robinhood a
      then emit_all w [PrintChecking, ShowProgress (length (float_filter (cutoff a) results []))]
      else None)"

text \<open>Lines 106 and 107: \<open>if args.limit > 0: symbols = symbols[:args.limit]\<close>.\<close>

definition take_limit :: "int \<Rightarrow> string list \<Rightarrow> string list" where
  "take_limit n symbols = (if 0 < n then take (nat n) symbols else symbols)"

text \<open>\<open>fetch_float(sym)\<close> in the world \<open>w\<close>.\<close>

definition fetch_float_in :: "world \<Rightarrow> string \<Rightarrow> enrichment" where
  "fetch_float_in w s = fetch_float (float_of_str w) (yf_info w s) s"

text \<open>
  \<open>main\<close>, from the parsed arguments: the symbol lists, the optional limit, the
  enrichment of every symbol by the pool, the filters and the sort, the CSV file, the
  printed rows. An exception that nothing catches ends the run. The progress bars
  raise, if they do, once the pool exists; as the workers and the filters never raise,
  their writing statements stand here after \<open>run_batch\<close> and before \<open>report_rows\<close>.
\<close>

definition main :: "args \<Rightarrow> world \<Rightarrow> py_error + run" where
  "main a w =
     (case emit w PrintDownloading of
        Some e \<Rightarrow> Inl e
      | None \<Rightarrow>
     (case download_symbol_list (requests_get w) of
        Inl e \<Rightarrow> Inl e
      | Inr listed \<Rightarrow>
     (case emit_all w [PrintSymbolsToCheck (length (take_limit (limit a) listed)), PrintFetching] of
        Some e \<Rightarrow> Inl e
      | None \<Rightarrow>
     (case run_batch (workers a) (\<lambda>s. Inr (fetch_float_in w s)) (completion1 w)
             (take_limit (limit a) listed) of
        Inl e \<Rightarrow> Inl e
      | Inr results \<Rightarrow>
     (case emit w (ShowProgress (length (take_limit (limit a) listed))) of
        Some e \<Rightarrow> Inl e
      | None \<Rightarrow>
     (case announce_check w a results of
        Some e \<Rightarrow> Inl e
      | None \<Rightarrow>
     (case report_rows a (requests_get w) (completion2 w) results of
        Inl e \<Rightarrow> Inl e
      | Inr (rows, rh_checked) \<Rightarrow>
     (case write_report w a rows of
        Some e \<Rightarrow> Inl e
      | None \<Rightarrow>
          Inr \<lparr> fetched = take_limit (limit a) listed,
                checked = rh_checked, report = rows \<rparr>))))))))"

section \<open>The specification's wording of three components\<close>

text \<open>
  For comparison with the definitions above, which follow the code, three definitions
  that follow the words of the specification.

  The eligibility check: true exactly when the response has a success status code (the
  class 2xx of HTTP) and its body, parsed, contains a non-empty \<open>results\<close> collection.
\<close>

definition success_status :: "int \<Rightarrow> bool" where
  "success_status s = (200 \<le> s \<and> s < 300)"

fun nonempty_collection :: "pyval \<Rightarrow> bool" where
  "nonempty_collection (PList xs) = (xs \<noteq> [])"
| "nonempty_collection (PDict d) = (d \<noteq> [])"
| "nonempty_collection _ = False"

definition spec_check_eligibility :: "network \<Rightarrow> string \<Rightarrow> bool" where
  "spec_check_eligibility net ticker =
     (case net (ROBINHOOD_INSTRUMENTS ticker) of
        Inl e \<Rightarrow> False
      | Inr r \<Rightarrow>
          success_status (status_code r) \<and>
          (case r_json r of
             Inr (PDict body) \<Rightarrow> nonempty_collection (dict_get body ''results'')
           | _ \<Rightarrow> False))"

text \<open>
  The enrichment of an \<open>info\<close> dictionary: the share count is the first value, in the
  order of the primary keys, that is numeric and greater than zero; only if no key
  yields such a number, the first string value, in the order of the secondary keys, that
  re-parses to a number greater than zero once the separators are stripped; the display
  name, the exchange and the market capitalization are read in every case.
\<close>

definition accepted_number :: "(string \<times> pyval) list \<Rightarrow> string \<Rightarrow> bool" where
  "accepted_number info k = (is_int_or_float (dict_get info k) \<and> gt_zero (dict_get info k))"

definition reparsed :: "(string \<Rightarrow> pyfloat option) \<Rightarrow> (string \<times> pyval) list \<Rightarrow> string \<Rightarrow> int option" where
  "reparsed flt info k =
     (case dict_get info k of
        PStr s \<Rightarrow> (case parse_count flt s of Inr n \<Rightarrow> if 0 < n then Some n else None | Inl e \<Rightarrow> None)
      | _ \<Rightarrow> None)"

definition spec_float_count :: "(string \<Rightarrow> pyfloat option) \<Rightarrow> (string \<times> pyval) list \<Rightarrow> int option" where
  "spec_float_count flt info =
     (case find (accepted_number info) primary_keys of
        Some k \<Rightarrow> (case py_int (dict_get info k) of Inr n \<Rightarrow> Some n | Inl e \<Rightarrow> None)
      | None \<Rightarrow>
          (case find (\<lambda>k. reparsed flt info k \<noteq> None) secondary_keys of
             Some k \<Rightarrow> reparsed flt info k
           | None \<Rightarrow> None))"

definition spec_enrich :: "(string \<Rightarrow> pyfloat option) \<Rightarrow> (string \<times> pyval) list \<Rightarrow> string \<Rightarrow> enrichment" where
  "spec_enrich flt info ticker =
     \<lparr> symbol = ticker, float = spec_float_count flt info,
       shortName = dict_get info ''shortName'', exchange = dict_get info ''exchange'',
       marketCap = dict_get info ''marketCap'' \<rparr>"

text \<open>Whether the conversion of the first accepted number raises.\<close>

definition conversion_raises :: "(string \<times> pyval) list \<Rightarrow> bool" where
  "conversion_raises info =
     (case find (accepted_number info) primary_keys of
        Some k \<Rightarrow> (case py_int (dict_get info k) of Inl e \<Rightarrow> True | Inr n \<Rightarrow> False)
      | None \<Rightarrow> False)"



text \<open>
  How the retrieval of one directory fails: the request raises, or the status is one
  that \<open>raise_for_status\<close> rejects.
\<close>

definition source_error :: "network \<Rightarrow> string \<Rightarrow> py_error option" where
  "source_error net url =
     (case net url of
        Inl e \<Rightarrow> Some e
      | Inr r \<Rightarrow>
          if 400 \<le> status_code r \<and> status_code r < 600 then Some (HTTPError (status_code r))
          else None)"

section \<open>An example world\<close>

text \<open>
  The inputs on which the theorems below are evaluated, after the end-to-end example of
  the specification: the two directories list \<open>AAA\<close>, \<open>BBB\<close> and \<open>CCC\<close>, with \<open>AAA\<close> in
  both; the data provider knows a float of 5,000,000 for \<open>AAA\<close>, of 50,000,000 (as a
  string with separators) for \<open>BBB\<close>, and fails for \<open>CCC\<close>; the brokerage lists \<open>BBB\<close>
  and not \<open>AAA\<close>; every writing statement returns.
\<close>

definition example_net :: network where
  "example_net url =
     (if url = NASDAQ_LISTED_URL then
        Inr \<lparr> status_code = 200,
              r_text = ''Symbol|Security Name'' @ [CHR 0x0A] @ ''BBB|Beta Corp'' @ [CHR 0x0A]
                       @ ''AAA|Alpha Inc'' @ [CHR 0x0A] @ ''File Creation Time: 1104|'' @ [CHR 0x0A],
              r_json = Inl JSONDecodeError \<rparr>
      else if url = OTHER_LISTED_URL then
        Inr \<lparr> status_code = 200,
              r_text = ''ACT Symbol|Security Name'' @ [CHR 0x0D, CHR 0x0A] @ '' AAA |Alpha Inc''
                       @ [CHR 0x0D, CHR 0x0A] @ ''CCC|Gamma'' @ [CHR 0x0D, CHR 0x0A]
                       @ [CHR 0x0D, CHR 0x0A] @ ''DDD|Delta'',
              r_json = Inl JSONDecodeError \<rparr>
      else if url = ROBINHOOD_INSTRUMENTS ''AAA'' then
        Inr \<lparr> status_code = 200, r_text = [], r_json = Inr (PDict [(''results'', PList [])]) \<rparr>
      else if url = ROBINHOOD_INSTRUMENTS ''BBB'' then
        Inr \<lparr> status_code = 200, r_text = [],
              r_json = Inr (PDict [(''results'', PList [PDict [(''symbol'', PStr ''BBB'')]])]) \<rparr>
      else Inl ConnectionError)"

definition example_yf :: "string \<Rightarrow> py_error + pyval" where
  "example_yf s =
     (if s = ''AAA'' then
        Inr (PDict [(''floatShares'', PInt 5000000), (''shortName'', PStr ''Alpha Inc'')])
      else if s = ''BBB'' then
        Inr (PDict [(''sharesOutstanding'', PStr ''50,000,000''), (''exchange'', PStr ''NMS'')])
      else Inl ConnectionError)"

definition example_float :: "string \<Rightarrow> pyfloat option" where
  "example_float s = (if s = ''50000000'' then Some (Finite 50000000) else None)"

definition example_world :: world where
  "example_world =
     \<lparr> requests_get = example_net, yf_info = example_yf, float_of_str = example_float,
       completion1 = [2, 0], completion2 = [1], emit = (\<lambda>act. None) \<rparr>"

definition row_AAA :: enrichment where
  "row_AAA = \<lparr> symbol = ''AAA'', float = Some 5000000, shortName = PStr ''Alpha Inc'',
               exchange = PNone, marketCap = PNone \<rparr>"

definition row_BBB :: enrichment where
  "row_BBB = \<lparr> symbol = ''BBB'', float = Some 50000000, shortName = PNone,
               exchange = PStr ''NMS'', marketCap = PNone \<rparr>"

text \<open>
  The same world, but writing or printing the record of the failed lookup of \<open>CCC\<close>
  would raise.
\<close>

definition picky_world :: world where
  "picky_world =
     example_world \<lparr> emit := \<lambda>act.
        if act = WriteRow (failed_record ''CCC'') \<or> act = PrintRow (failed_record ''CCC'')
        then Some ValueError else None \<rparr>"

text \<open>The same world, but writing the row of \<open>AAA\<close> to the CSV file raises.\<close>

definition refusing_world :: world where
  "refusing_world =
     example_world \<lparr> emit := \<lambda>act. if act = WriteRow row_AAA then Some ValueError else None \<rparr>"

text \<open>The same world, but the data provider reports a float of one half for \<open>CCC\<close>.\<close>

definition fraction_world :: world where
  "fraction_world =
     example_world \<lparr> yf_info := \<lambda>s. if s = ''CCC''
        then Inr (PDict [(''floatShares'', PFloat (Finite (1/2)))]) else example_yf s \<rparr>"

definition row_CCC_zero :: enrichment where
  "row_CCC_zero = \<lparr> symbol = ''CCC'', float = Some 0, shortName = PNone,
                    exchange = PNone, marketCap = PNone \<rparr>"

text \<open>
  The networks where the second directory answers \<open>304 Not Modified\<close> with an empty
  body, or \<open>503 Service Unavailable\<close>, and two brokerage answers for \<open>AAA\<close>: \<open>201 Created\<close> with a non-empty list
  of results, and \<open>200 OK\<close> with a number for results.
\<close>

definition not_modified_net :: network where
  "not_modified_net url =
     (if url = OTHER_LISTED_URL then
        Inr \<lparr> status_code = 304, r_text = [], r_json = Inl JSONDecodeError \<rparr>
      else example_net url)"

definition unavailable_net :: network where
  "unavailable_net url =
     (if url = OTHER_LISTED_URL then
        Inr \<lparr> status_code = 503, r_text = [], r_json = Inl JSONDecodeError \<rparr>
      else example_net url)"

definition created_net :: network where
  "created_net url =
     Inr \<lparr> status_code = 201, r_text = [],
           r_json = Inr (PDict [(''results'', PList [PDict [(''symbol'', PStr ''AAA'')]])]) \<rparr>"

definition number_net :: network where
  "number_net url =
     Inr \<lparr> status_code = 200, r_text = [], r_json = Inr (PDict [(''results'', PInt 5)]) \<rparr>"

definition example_args :: "int \<Rightarrow> bool \<Rightarrow> int \<Rightarrow> args" where
  "example_args c rh n =
     \<lparr> cutoff = c, robinhood = rh, output_file = ''low_float.csv'', workers = n, limit = 0 \<rparr>"

section \<open>Properties of the worker pool and of the filters\<close>

lemma float_filter_eq: "float_filter c results filtered = filtered @ filter (passes c) results"
  by (induction results arbitrary: filtered) (auto simp: passes_def split: option.splits)

lemma length_remove_nth: "i < length xs \<Longrightarrow> length (remove_nth i xs) = length xs - 1"
  by (auto simp: remove_nth_def)

lemma mset_remove_nth: "i < length xs \<Longrightarrow> add_mset (xs ! i) (mset (remove_nth i xs)) = mset xs"
proof -
  assume i: "i < length xs"
  then have "xs = take i xs @ xs ! i # drop (Suc i) xs"
    by (simp add: id_take_nth_drop)
  then have "mset xs = mset (take i xs @ xs ! i # drop (Suc i) xs)"
    by simp
  then show ?thesis
    by (simp add: remove_nth_def)
qed

lemma mset_as_completed: "mset (as_completed picks fs) = mset fs"
proof (induction picks fs rule: as_completed.induct)
  case (1 picks)
  show ?case by simp
next
  case (2 f fs)
  then show ?case by simp
next
  case (3 k ks f fs)
  have "k mod length (f # fs) < length (f # fs)"
    by simp
  from mset_remove_nth [OF this] 3 show ?case
    by simp
qed

lemma set_as_completed: "set (as_completed picks fs) = set fs"
  by (metis mset_as_completed set_mset_mset)

lemma length_as_completed: "length (as_completed picks fs) = length fs"
  by (metis mset_as_completed size_mset)

lemma as_completed_any_order:
  "mset cs = mset fs \<Longrightarrow> \<exists>picks. as_completed picks fs = cs"
proof (induction cs arbitrary: fs)
  case Nil
  then show ?case by simp
next
  case (Cons c cs)
  then have "c \<in> set fs"
    by (metis list.set_intros(1) mset_eq_setD)
  then obtain i where i: "i < length fs" "fs ! i = c"
    by (auto simp: in_set_conv_nth)
  then obtain g gs where fs: "fs = g # gs"
    by (cases fs) auto
  have "add_mset c (mset (remove_nth i fs)) = mset fs"
    using mset_remove_nth [OF i(1)] i(2) by simp
  with Cons.prems have "add_mset c (mset cs) = add_mset c (mset (remove_nth i fs))"
    by simp
  then have "mset cs = mset (remove_nth i fs)"
    by simp
  from Cons.IH [OF this] obtain picks where p: "as_completed picks (remove_nth i fs) = cs"
    by blast
  have "as_completed (i # picks) fs = c # cs"
    using i p by (simp add: fs)
  then show ?case by blast
qed

lemma collect_results_values:
  "collect_results (map (\<lambda>(y, x). (Inr y, x)) fs) results = Inr (results @ map fst fs)"
  by (induction fs arbitrary: results) auto

lemma rh_collect_eq:
  "rh_collect fs rh_filtered = rh_filtered @ map snd (filter (\<lambda>(f, r). f = Inr True) fs)"
  by (induction fs arbitrary: rh_filtered) (auto split: sum.splits)

lemma ThreadPoolExecutor_pos: "0 < n \<Longrightarrow> ThreadPoolExecutor n = Inr ()"
  by (simp add: ThreadPoolExecutor_def)

lemma rh_stage_eq:
  "rh_stage n net picks filtered =
     Inr (map snd (filter (\<lambda>(f, r). f = Inr True)
            (as_completed picks (submit_all (\<lambda>r. Inr (robinhood_has_symbol net (symbol r))) filtered))),
          map symbol filtered)"
  by (simp add: rh_stage_def ThreadPoolExecutor_pos rh_collect_eq submit_all_def comp_def)

lemma set_rh_rows:
  "set (map snd (filter (\<lambda>(f, r). f = Inr True)
            (as_completed picks (submit_all (\<lambda>r. Inr (robinhood_has_symbol net (symbol r))) filtered))))
   = {r \<in> set filtered. robinhood_has_symbol net (symbol r)}"
  by (auto simp: set_as_completed submit_all_def image_iff)

lemma report_rows_total: "\<exists>rows chk. report_rows a net picks results = Inr (rows, chk)"
  by (simp add: report_rows_def rh_stage_eq Let_def)

lemma report_rows_set:
  assumes "report_rows a net picks results = Inr (rows, chk)"
  shows "set rows = {r \<in> set results. passes (cutoff a) r \<and> (robinhood a \<longrightarrow> robinhood_has_symbol net (symbol r))}"
proof (cases "robinhood a")
  case True
  with assms show ?thesis
    by (auto simp: report_rows_def rh_stage_eq set_rh_rows float_filter_eq Let_def simp del: set_map)
next
  case False
  with assms show ?thesis
    by (auto simp: report_rows_def float_filter_eq Let_def)
qed

lemma report_rows_checked:
  assumes "report_rows a net picks results = Inr (rows, chk)"
  shows "chk = (if robinhood a then map symbol (filter (passes (cutoff a)) results) else [])"
  using assms by (auto simp: report_rows_def rh_stage_eq float_filter_eq Let_def split: if_splits)

lemma remove_nth_map: "remove_nth i (map g xs) = map g (remove_nth i xs)"
  by (simp add: remove_nth_def take_map drop_map)

lemma as_completed_map: "as_completed picks (map g fs) = map g (as_completed picks fs)"
proof (induction picks fs rule: as_completed.induct)
  case (1 picks)
  show ?case by simp
next
  case (2 f fs)
  then show ?case by simp
next
  case (3 k ks f fs)
  have lt: "k mod length (f # fs) < length (f # fs)"
    by simp
  have "as_completed (k # ks) (map g (f # fs)) =
        map g (f # fs) ! (k mod length (f # fs)) #
        as_completed ks (remove_nth (k mod length (f # fs)) (map g (f # fs)))"
    by simp
  also have "map g (f # fs) ! (k mod length (f # fs)) = g ((f # fs) ! (k mod length (f # fs)))"
    using lt by (rule nth_map)
  also have "as_completed ks (remove_nth (k mod length (f # fs)) (map g (f # fs))) =
        map g (as_completed ks (remove_nth (k mod length (f # fs)) (f # fs)))"
    using 3 by (simp only: remove_nth_map)
  finally show ?case by simp
qed

lemma collect_results_Inr:
  "collect_results (map (\<lambda>x. (Inr (g x), x)) xs) results = Inr (results @ map g xs)"
  by (induction xs arbitrary: results) auto

lemma run_batch_eq:
  "run_batch c (\<lambda>x. Inr (g x)) picks items =
     (if c \<le> 0 then Inl ValueError else Inr (map g (as_completed picks items)))"
  by (simp add: run_batch_def ThreadPoolExecutor_def submit_all_def as_completed_map
      collect_results_Inr)

text \<open>
  Claim C7. The batch runner of lines 110 to 116, given \<open>N\<close> items, a worker that
  returns a value for each, and a pool size of at least one, returns normally with one
  result for each item: the results are the worker's values on the items, each once, in
  some order, so their number is \<open>N\<close>; one call is submitted for each item; nothing is
  dropped or changed. This holds for every pool size and every order of completion.
\<close>

theorem run_batch_one_result_per_item:
  assumes "0 < c"
  shows "\<exists>rs. run_batch c (\<lambda>x. Inr (fn x)) picks items = Inr rs
            \<and> mset rs = mset (map fn items)
            \<and> length rs = length items
            \<and> map snd (submit_all (\<lambda>x. Inr (fn x)) items) = items"
proof -
  have "run_batch c (\<lambda>x. Inr (fn x)) picks items = Inr (map fn (as_completed picks items))"
    using assms by (simp add: run_batch_eq)
  moreover have "mset (map fn (as_completed picks items)) = mset (map fn items)"
    by (simp add: mset_as_completed)
  moreover have "length (map fn (as_completed picks items)) = length items"
    by (simp add: length_as_completed)
  moreover have "map snd (submit_all (\<lambda>x. Inr (fn x)) items) = items"
    by (simp add: submit_all_def comp_def)
  ultimately show ?thesis
    by blast
qed

theorem run_batch_one_result_per_item_witness:
  "(0::int) < 8
   \<and> run_batch 8 (\<lambda>x. Inr (x * x)) [2, 0] [3, 4, 5 :: int] = Inr [25, 9, 16]
   \<and> mset [25, 9, 16] = mset (map (\<lambda>x. x * x) [3, 4, 5 :: int])
   \<and> length [25, 9, 16 :: int] = length [3, 4, 5 :: int]"
proof -
  have pos: "(0::int) < 8"
    by simp
  have run: "run_batch 8 (\<lambda>x. Inr (x * x)) [2, 0] [3, 4, 5 :: int] = Inr [25, 9, 16]"
    by (simp add: run_batch_def ThreadPoolExecutor_def submit_all_def remove_nth_def)
  from run_batch_one_result_per_item [OF pos, of "\<lambda>x. x * x" "[2, 0]" "[3, 4, 5]"] run pos
  show ?thesis
    by auto
qed

section \<open>The run as a whole\<close>

lemma symbol_fetch_float: "symbol (fetch_float flt yf t) = t"
  by (auto simp: fetch_float_def fetch_float_body_def failed_record_def Let_def
      split: sum.splits pyval.splits)

lemma fetch_float_raised:
  "fetch_float_body flt yf t = Inl e \<Longrightarrow> fetch_float flt yf t = failed_record t"
  by (simp add: fetch_float_def)

lemma float_present_not_raised:
  "float (fetch_float flt yf t) \<noteq> None \<Longrightarrow> fetch_float_body flt yf t \<noteq> Inl e"
  by (auto simp: fetch_float_def failed_record_def)

lemma report_rows_present:
  assumes "report_rows a net picks results = Inr (rows, chk)" and "r \<in> set rows"
  shows "float r \<noteq> None"
  using report_rows_set [OF assms(1)] assms(2)
  by (auto simp: passes_def split: option.splits)

lemma download_symbol_list_fails:
  "download_symbol_list net = Inl e \<longleftrightarrow>
     source_error net NASDAQ_LISTED_URL = Some e
     \<or> source_error net NASDAQ_LISTED_URL = None \<and> source_error net OTHER_LISTED_URL = Some e"
  by (auto simp: download_symbol_list_def source_error_def raise_for_status_def
      split: sum.splits if_splits)

lemma download_symbol_list_returns:
  "(\<exists>listed. download_symbol_list net = Inr listed) \<longleftrightarrow>
     source_error net NASDAQ_LISTED_URL = None \<and> source_error net OTHER_LISTED_URL = None"
  by (auto simp: download_symbol_list_def source_error_def raise_for_status_def
      split: sum.splits if_splits)

lemma emit_all_raises:
  "emit_all w acts = Some e \<Longrightarrow> \<exists>act\<in>set acts. emit w act = Some e"
  by (induction acts) (auto split: option.splits)

lemma emit_all_returns:
  "\<forall>act\<in>set acts. emit w act = None \<Longrightarrow> emit_all w acts = None"
  by (induction acts) auto

lemma print_rows_raises:
  "print_rows w rs = Some e \<Longrightarrow> \<forall>r\<in>set rs. float r \<noteq> None \<Longrightarrow>
     \<exists>r\<in>set rs. emit w (PrintRow r) = Some e"
  by (induction rs) (auto split: option.splits)

lemma print_rows_returns:
  "\<forall>r\<in>set rs. float r \<noteq> None \<and> emit w (PrintRow r) = None \<Longrightarrow> print_rows w rs = None"
  by (induction rs) auto

text \<open>
  An exception of the writing of the report is the exception of one writing statement;
  where that statement writes or prints a row, the row is one of the report.
\<close>

lemma write_report_raises:
  assumes "write_report w a rows = Some e" and "\<forall>r\<in>set rows. float r \<noteq> None"
  shows "\<exists>act. emit w act = Some e \<and> (\<forall>r. act = WriteRow r \<or> act = PrintRow r \<longrightarrow> r \<in> set rows)"
proof (cases "write_csv w (output_file a) rows")
  case (Some e')
  with assms(1) have e: "e' = e"
    by (simp add: write_report_def)
  from Some have "emit w (OpenOutput (output_file a)) = Some e \<or> emit w CloseOutput = Some e
      \<or> emit_all w (WriteHeader # map WriteRow rows) = Some e"
    unfolding e by (auto simp: write_csv_def split: option.splits)
  then show ?thesis
  proof (elim disjE)
    assume "emit_all w (WriteHeader # map WriteRow rows) = Some e"
    from emit_all_raises [OF this] show ?thesis
      by auto
  qed auto
next
  case None
  show ?thesis
  proof (cases "emit w (PrintFound (length rows) (cutoff a))")
    case (Some e')
    with None assms(1) show ?thesis
      by (auto simp: write_report_def)
  next
    case found: None
    show ?thesis
    proof (cases "print_rows w (take 100 rows)")
      case (Some e')
      with None found assms(1) have "print_rows w (take 100 rows) = Some e"
        by (simp add: write_report_def)
      moreover have "\<forall>r\<in>set (take 100 rows). float r \<noteq> None"
        using assms(2) by (auto dest: in_set_takeD)
      ultimately obtain r where "r \<in> set (take 100 rows)" "emit w (PrintRow r) = Some e"
        using print_rows_raises by blast
      then show ?thesis
        by (auto dest: in_set_takeD)
    next
      case printed: None
      with None found assms(1) show ?thesis
        by (auto simp: write_report_def)
    qed
  qed
qed

lemma write_report_returns:
  assumes "\<forall>act. (\<forall>r. act \<noteq> WriteRow r \<and> act \<noteq> PrintRow r) \<longrightarrow> emit w act = None"
    and "\<forall>r\<in>set rows. float r \<noteq> None \<and> emit w (WriteRow r) = None \<and> emit w (PrintRow r) = None"
  shows "write_report w a rows = None"
proof -
  have "emit_all w (WriteHeader # map WriteRow rows) = None"
    using assms by (intro emit_all_returns) auto
  then have "write_csv w (output_file a) rows = None"
    using assms(1) by (simp add: write_csv_def)
  moreover have "print_rows w (take 100 rows) = None"
    using assms(2) by (intro print_rows_returns) (auto dest: in_set_takeD)
  ultimately show ?thesis
    using assms(1) by (simp add: write_report_def)
qed

lemma main_returns:
  assumes "main a w = Inr out"
  shows "\<exists>listed. download_symbol_list (requests_get w) = Inr listed
           \<and> 0 < workers a
           \<and> fetched out = take_limit (limit a) listed
           \<and> report_rows a (requests_get w) (completion2 w)
                (map (fetch_float_in w) (as_completed (completion1 w) (take_limit (limit a) listed)))
              = Inr (report out, checked out)"
  using assms
  by (auto simp: main_def run_batch_eq split: sum.splits option.splits if_splits prod.splits)

text \<open>
  A run that ends with an exception: the exception is that of the symbol source, the
  \<open>ValueError\<close> of a pool without workers, or that of a writing statement; where that
  statement writes or prints a row, the row is the record of a symbol and has a float.
\<close>

lemma main_fails_only_by:
  assumes "main a w = Inl e"
  shows "source_error (requests_get w) NASDAQ_LISTED_URL = Some e
     \<or> source_error (requests_get w) NASDAQ_LISTED_URL = None
        \<and> source_error (requests_get w) OTHER_LISTED_URL = Some e
     \<or> workers a \<le> 0 \<and> e = ValueError
     \<or> (\<exists>act. emit w act = Some e
           \<and> (\<forall>r. act = WriteRow r \<or> act = PrintRow r \<longrightarrow>
                 (\<exists>s. r = fetch_float_in w s) \<and> float r \<noteq> None))"
proof (cases "emit w PrintDownloading")
  case (Some e')
  with assms show ?thesis
    by (auto simp: main_def)
next
  case first: None
  show ?thesis
  proof (cases "download_symbol_list (requests_get w)")
    case (Inl e')
    with assms first have "download_symbol_list (requests_get w) = Inl e"
      by (simp add: main_def)
    then have "source_error (requests_get w) NASDAQ_LISTED_URL = Some e
        \<or> source_error (requests_get w) NASDAQ_LISTED_URL = None
          \<and> source_error (requests_get w) OTHER_LISTED_URL = Some e"
      by (simp only: download_symbol_list_fails)
    then show ?thesis
      by blast
  next
    case (Inr listed)
    let ?symbols = "take_limit (limit a) listed"
    let ?results = "map (fetch_float_in w) (as_completed (completion1 w) ?symbols)"
    show ?thesis
    proof (cases "emit_all w [PrintSymbolsToCheck (length ?symbols), PrintFetching]")
      case (Some e')
      with assms first Inr have "emit_all w [PrintSymbolsToCheck (length ?symbols), PrintFetching] = Some e"
        by (simp add: main_def)
      from emit_all_raises [OF this] show ?thesis
        by auto
    next
      case second: None
      show ?thesis
      proof (cases "workers a \<le> 0")
        case True
        with assms first Inr second show ?thesis
          by (simp add: main_def run_batch_eq)
      next
        case pool: False
        show ?thesis
        proof (cases "emit w (ShowProgress (length ?symbols))")
          case (Some e')
          with assms first Inr second pool show ?thesis
            by (auto simp: main_def run_batch_eq)
        next
          case bar: None
          show ?thesis
          proof (cases "announce_check w a ?results")
            case (Some e')
            with assms first Inr second pool bar have "announce_check w a ?results = Some e"
              by (simp add: main_def run_batch_eq)
            then have "emit_all w [PrintChecking,
                ShowProgress (length (float_filter (cutoff a) ?results []))] = Some e"
              by (simp add: announce_check_def del: emit_all.simps split: if_splits)
            from emit_all_raises [OF this] show ?thesis
              by auto
          next
            case announced: None
            obtain rows chk where rows:
              "report_rows a (requests_get w) (completion2 w) ?results = Inr (rows, chk)"
              using report_rows_total by blast
            have present: "\<forall>r\<in>set rows. float r \<noteq> None"
              using report_rows_present [OF rows] by blast
            have looked_up: "\<forall>r\<in>set rows. \<exists>s. r = fetch_float_in w s"
              using report_rows_set [OF rows] by auto
            from assms first Inr second pool bar announced rows
            have "write_report w a rows = Some e"
              by (simp add: main_def run_batch_eq split: option.splits)
            from write_report_raises [OF this present] present looked_up show ?thesis
              by blast
          qed
        qed
      qed
    qed
  qed
qed

lemma main_succeeds:
  assumes listed: "download_symbol_list (requests_get w) = Inr listed"
    and pool: "0 < workers a"
    and quiet: "\<forall>act. (\<forall>r. act \<noteq> WriteRow r \<and> act \<noteq> PrintRow r) \<longrightarrow> emit w act = None"
    and rows: "\<forall>s. float (fetch_float_in w s) \<noteq> None \<longrightarrow>
        emit w (WriteRow (fetch_float_in w s)) = None \<and> emit w (PrintRow (fetch_float_in w s)) = None"
  shows "\<exists>out. main a w = Inr out"
proof (cases "main a w")
  case (Inr out)
  then show ?thesis
    by blast
next
  case (Inl e)
  have sources: "source_error (requests_get w) NASDAQ_LISTED_URL = None"
    "source_error (requests_get w) OTHER_LISTED_URL = None"
    using listed download_symbol_list_returns [of "requests_get w"] by auto
  from main_fails_only_by [OF Inl] sources pool
  obtain act where act: "emit w act = Some e"
    and row: "\<forall>r. act = WriteRow r \<or> act = PrintRow r \<longrightarrow>
                 (\<exists>s. r = fetch_float_in w s) \<and> float r \<noteq> None"
    by auto
  show ?thesis
  proof (cases "\<exists>r. act = WriteRow r \<or> act = PrintRow r")
    case True
    with row rows act show ?thesis
      by auto
  next
    case False
    with quiet act show ?thesis
      by auto
  qed
qed

text \<open>A run in a world where every writing statement returns.\<close>

lemma main_quiet:
  assumes "emit w = (\<lambda>act. None)"
  shows "main a w =
     (case download_symbol_list (requests_get w) of
        Inl e \<Rightarrow> Inl e
      | Inr listed \<Rightarrow>
          if workers a \<le> 0 then Inl ValueError
          else (case report_rows a (requests_get w) (completion2 w)
                       (map (fetch_float_in w)
                          (as_completed (completion1 w) (take_limit (limit a) listed))) of
                  Inl e \<Rightarrow> Inl e
                | Inr (rows, chk) \<Rightarrow>
                    Inr \<lparr> fetched = take_limit (limit a) listed, checked = chk, report = rows \<rparr>))"
proof (cases "download_symbol_list (requests_get w)")
  case (Inl e)
  with assms show ?thesis
    by (simp add: main_def)
next
  case (Inr listed)
  let ?results = "map (fetch_float_in w) (as_completed (completion1 w) (take_limit (limit a) listed))"
  obtain rows chk where rows:
    "report_rows a (requests_get w) (completion2 w) ?results = Inr (rows, chk)"
    using report_rows_total by blast
  have "write_report w a rows = None"
    using assms report_rows_present [OF rows] by (intro write_report_returns) auto
  moreover have "announce_check w a ?results = None"
    using assms by (simp add: announce_check_def)
  ultimately show ?thesis
    using assms Inr rows by (simp add: main_def run_batch_eq)
qed

section \<open>The example run\<close>

lemma example_listed: "download_symbol_list example_net = Inr [''AAA'', ''BBB'', ''CCC'']"
  by (simp add: download_symbol_list_def example_net_def NASDAQ_LISTED_URL_def
      OTHER_LISTED_URL_def raise_for_status_def splitlines_def is_linebreak_def
      startswith_def strip_def is_space_def)

lemma example_fetch_AAA: "fetch_float_in example_world ''AAA'' = row_AAA"
  by (simp add: fetch_float_in_def example_world_def example_yf_def fetch_float_def
      fetch_float_body_def primary_keys_def dict_get_def row_AAA_def)

lemma example_fetch_BBB: "fetch_float_in example_world ''BBB'' = row_BBB"
  by (simp add: fetch_float_in_def example_world_def example_yf_def example_float_def
      fetch_float_def fetch_float_body_def primary_keys_def secondary_keys_def dict_get_def
      parse_count_def strip_commas_def row_BBB_def)

lemma example_fetch_CCC: "fetch_float_in example_world ''CCC'' = failed_record ''CCC''"
  by (simp add: fetch_float_in_def example_world_def example_yf_def fetch_float_def
      fetch_float_body_def)

lemma example_completion1:
  "as_completed [2, 0] [''AAA'', ''BBB'', ''CCC''] = [''CCC'', ''AAA'', ''BBB'']"
  by (simp add: remove_nth_def)

lemma example_rh_AAA: "\<not> robinhood_has_symbol example_net ''AAA''"
  by (simp add: robinhood_has_symbol_def robinhood_has_symbol_body_def example_net_def
      ROBINHOOD_INSTRUMENTS_def NASDAQ_LISTED_URL_def OTHER_LISTED_URL_def dict_get_def)

lemma example_rh_BBB: "robinhood_has_symbol example_net ''BBB''"
  by (simp add: robinhood_has_symbol_def robinhood_has_symbol_body_def example_net_def
      ROBINHOOD_INSTRUMENTS_def NASDAQ_LISTED_URL_def OTHER_LISTED_URL_def dict_get_def)

lemma take_limit_all: "take_limit 0 symbols = symbols"
  by (simp add: take_limit_def)

lemma example_results:
  "map (fetch_float_in example_world)
     (as_completed (completion1 example_world) [''AAA'', ''BBB'', ''CCC''])
   = [failed_record ''CCC'', row_AAA, row_BBB]"
proof -
  have "completion1 example_world = [2, 0]"
    by (simp add: example_world_def)
  then show ?thesis
    by (simp only: example_completion1 list.map example_fetch_AAA
        example_fetch_BBB example_fetch_CCC)
qed

lemma example_report_plain:
  "report_rows (example_args 10000000 False n) example_net picks
     [failed_record ''CCC'', row_AAA, row_BBB] = Inr ([row_AAA], [])"
  by (simp add: report_rows_def example_args_def failed_record_def row_AAA_def row_BBB_def)

lemma example_report_robinhood:
  "report_rows (example_args 60000000 True 8) example_net (completion2 example_world)
     [failed_record ''CCC'', row_AAA, row_BBB] = Inr ([row_BBB], [''AAA'', ''BBB''])"
proof -
  have "float_filter 60000000 [failed_record ''CCC'', row_AAA, row_BBB] [] = [row_AAA, row_BBB]"
    by (simp add: failed_record_def row_AAA_def row_BBB_def)
  moreover have "symbol row_AAA = ''AAA''" "symbol row_BBB = ''BBB''"
    by (simp_all add: row_AAA_def row_BBB_def)
  moreover have "completion2 example_world = [1]"
    by (simp add: example_world_def)
  ultimately show ?thesis
    by (simp add: report_rows_def example_args_def rh_stage_def ThreadPoolExecutor_def
        submit_all_def remove_nth_def example_rh_AAA example_rh_BBB)
qed

lemma example_quiet: "emit example_world = (\<lambda>act. None)"
  by (simp add: example_world_def)

lemma example_run_plain:
  "main (example_args 10000000 False 8) example_world =
     Inr \<lparr> fetched = [''AAA'', ''BBB'', ''CCC''], checked = [], report = [row_AAA] \<rparr>"
proof -
  have "requests_get example_world = example_net"
    by (simp add: example_world_def)
  moreover have "workers (example_args 10000000 False 8) = 8"
    "limit (example_args 10000000 False 8) = 0"
    "output_file (example_args 10000000 False 8) = ''low_float.csv''"
    by (simp_all add: example_args_def)
  ultimately show ?thesis
    by (simp add: main_quiet [OF example_quiet] example_listed example_results example_report_plain take_limit_all)
qed

lemma example_run_robinhood:
  "main (example_args 60000000 True 8) example_world =
     Inr \<lparr> fetched = [''AAA'', ''BBB'', ''CCC''], checked = [''AAA'', ''BBB''], report = [row_BBB] \<rparr>"
proof -
  have "requests_get example_world = example_net"
    by (simp add: example_world_def)
  moreover have "workers (example_args 60000000 True 8) = 8"
    "limit (example_args 60000000 True 8) = 0"
    "output_file (example_args 60000000 True 8) = ''low_float.csv''"
    by (simp_all add: example_args_def)
  ultimately show ?thesis
    by (simp add: main_quiet [OF example_quiet] example_listed example_results example_report_robinhood take_limit_all)
qed

text \<open>
  Claim C1. Every row of the final report, the list that is written to the CSV file and
  printed, has a float that is present and at most the cutoff; a record whose float is
  absent is in no report. This holds for every collection of records and every cutoff
  given to lines 118 to 144, with either setting of the tradability filter and every
  order of completion, and so for every run of \<open>main\<close> that ends normally.
\<close>

theorem report_float_present_and_within_cutoff:
  "(report_rows a net picks results = Inr (rows, chk) \<longrightarrow>
      (\<forall>r\<in>set rows. \<exists>fval. float r = Some fval \<and> fval \<le> cutoff a))
   \<and> (main a w = Inr out \<longrightarrow>
      (\<forall>r\<in>set (report out). \<exists>fval. float r = Some fval \<and> fval \<le> cutoff a))"
proof (intro conjI impI ballI)
  fix r
  assume "report_rows a net picks results = Inr (rows, chk)" and "r \<in> set rows"
  then show "\<exists>fval. float r = Some fval \<and> fval \<le> cutoff a"
    using report_rows_set [of a net picks results rows chk]
    by (auto simp: passes_def split: option.splits)
next
  fix r
  assume run: "main a w = Inr out" and r: "r \<in> set (report out)"
  from main_returns [OF run] obtain results where
    "report_rows a (requests_get w) (completion2 w) results = Inr (report out, checked out)"
    by blast
  from report_rows_set [OF this] r show "\<exists>fval. float r = Some fval \<and> fval \<le> cutoff a"
    by (auto simp: passes_def split: option.splits)
qed

theorem report_float_present_and_within_cutoff_witness:
  "report_rows (example_args 10000000 False 8) example_net []
     [failed_record ''CCC'', row_AAA, row_BBB] = Inr ([row_AAA], [])
   \<and> main (example_args 10000000 False 8) example_world =
       Inr \<lparr> fetched = [''AAA'', ''BBB'', ''CCC''], checked = [], report = [row_AAA] \<rparr>
   \<and> float row_AAA = Some 5000000
   \<and> (\<exists>fval. float row_AAA = Some fval \<and> fval \<le> cutoff (example_args 10000000 False 8))"
proof -
  note inst = report_float_present_and_within_cutoff [of "example_args 10000000 False 8"
      example_net "[]" "[failed_record ''CCC'', row_AAA, row_BBB]" "[row_AAA]" "[]"
      example_world "\<lparr> fetched = [''AAA'', ''BBB'', ''CCC''], checked = [], report = [row_AAA] \<rparr>"]
  have rows: "report_rows (example_args 10000000 False 8) example_net []
     [failed_record ''CCC'', row_AAA, row_BBB] = Inr ([row_AAA], [])"
    by (rule example_report_plain)
  have "row_AAA \<in> set [row_AAA]"
    by simp
  with inst [THEN conjunct1, rule_format, OF rows]
  have bound: "\<exists>fval. float row_AAA = Some fval \<and> fval \<le> cutoff (example_args 10000000 False 8)"
    by blast
  have "row_AAA \<in> set (report \<lparr> fetched = [''AAA'', ''BBB'', ''CCC''], checked = [], report = [row_AAA] \<rparr>)"
    by simp
  with inst [THEN conjunct2, rule_format, OF example_run_plain]
  have "\<exists>fval. float row_AAA = Some fval \<and> fval \<le> cutoff (example_args 10000000 False 8)"
    by blast
  moreover have "float row_AAA = Some 5000000"
    by (simp add: row_AAA_def)
  ultimately show ?thesis
    using rows example_run_plain by simp
qed

text \<open>
  Claim C6. When the tradability filter is requested, \<open>robinhood_has_symbol\<close> is true of
  the symbol of every row of the final report: a row whose check returned false, or
  failed, is left out. When it is not requested, \<open>robinhood_has_symbol\<close> is submitted
  for no symbol.
\<close>

theorem eligibility_requested_or_never_invoked:
  assumes "main a w = Inr out"
  shows "(robinhood a \<longrightarrow> (\<forall>r\<in>set (report out). robinhood_has_symbol (requests_get w) (symbol r)))
       \<and> (\<not> robinhood a \<longrightarrow> checked out = [])"
proof -
  from main_returns [OF assms] obtain results where
    rows: "report_rows a (requests_get w) (completion2 w) results = Inr (report out, checked out)"
    by blast
  from report_rows_set [OF rows] report_rows_checked [OF rows] show ?thesis
    by auto
qed

theorem eligibility_requested_or_never_invoked_witness:
  "main (example_args 60000000 True 8) example_world =
     Inr \<lparr> fetched = [''AAA'', ''BBB'', ''CCC''], checked = [''AAA'', ''BBB''], report = [row_BBB] \<rparr>
   \<and> robinhood (example_args 60000000 True 8)
   \<and> robinhood_has_symbol (requests_get example_world) (symbol row_BBB)
   \<and> \<not> robinhood_has_symbol (requests_get example_world) ''AAA''
   \<and> main (example_args 10000000 False 8) example_world =
     Inr \<lparr> fetched = [''AAA'', ''BBB'', ''CCC''], checked = [], report = [row_AAA] \<rparr>
   \<and> \<not> robinhood (example_args 10000000 False 8)"
proof -
  have net: "requests_get example_world = example_net"
    by (simp add: example_world_def)
  have on: "robinhood (example_args 60000000 True 8)"
    and off: "\<not> robinhood (example_args 10000000 False 8)"
    by (simp_all add: example_args_def)
  from eligibility_requested_or_never_invoked [OF example_run_robinhood] on
  have "robinhood_has_symbol (requests_get example_world) (symbol row_BBB)"
    by simp
  moreover from eligibility_requested_or_never_invoked [OF example_run_plain] off
  have "checked \<lparr> fetched = [''AAA'', ''BBB'', ''CCC''], checked = [], report = [row_AAA] \<rparr> = []"
    by simp
  ultimately show ?thesis
    using on off example_run_robinhood example_run_plain example_rh_AAA net
    by simp
qed


lemma failed_lookup_not_reported:
  assumes run: "main a w = Inr out"
    and failed: "fetch_float_body (float_of_str w) (yf_info w s) s = Inl e"
  shows "s \<notin> symbol ` set (report out)"
proof
  assume "s \<in> symbol ` set (report out)"
  then obtain r where r: "r \<in> set (report out)" "symbol r = s"
    by auto
  from main_returns [OF run] obtain listed where
    rows: "report_rows a (requests_get w) (completion2 w)
             (map (fetch_float_in w) (as_completed (completion1 w) (take_limit (limit a) listed)))
           = Inr (report out, checked out)"
    by blast
  from report_rows_set [OF rows] r(1) obtain s' where "r = fetch_float_in w s'"
    by auto
  with r(2) have "r = fetch_float_in w s"
    by (simp add: fetch_float_in_def symbol_fetch_float)
  with failed have "r = failed_record s"
    by (simp add: fetch_float_in_def fetch_float_raised)
  then have "float r = None"
    by (simp add: failed_record_def)
  with report_rows_present [OF rows r(1)] show False
    by simp
qed

section \<open>The float of a record, and the order of the report\<close>

lemma numeric_loop_nonneg: "numeric_loop info ks = Inr (Some n) \<Longrightarrow> 0 \<le> n"
proof (induction ks)
  case Nil
  then show ?case by simp
next
  case (Cons k ks)
  show ?case
  proof (cases "is_int_or_float (dict_get info k) \<and> gt_zero (dict_get info k)")
    case False
    with Cons show ?thesis
      by (simp add: Let_def)
  next
    case True
    with Cons.prems have conv: "py_int (dict_get info k) = Inr n"
      by (simp add: Let_def split: sum.splits)
    show ?thesis
    proof (cases "dict_get info k")
      case (PFloat f)
      with True conv show ?thesis
        by (cases f) (auto split: if_splits)
    qed (use True conv in \<open>auto split: if_splits\<close>)
  qed
qed

lemma string_loop_pos: "string_loop flt info ks = Some n \<Longrightarrow> 0 < n"
  by (induction ks) (auto split: pyval.splits sum.splits if_splits)

lemma string_loop_nonneg: "string_loop flt info ks = Some n \<Longrightarrow> 0 \<le> n"
  using string_loop_pos [of flt info ks n] by simp

lemma fetch_float_nonneg: "float (fetch_float flt yf t) = Some n \<Longrightarrow> 0 \<le> n"
  by (auto simp: fetch_float_def fetch_float_body_def failed_record_def Let_def
      split: sum.splits pyval.splits if_splits
      dest: numeric_loop_nonneg string_loop_nonneg)

lemma report_sorted_by_key:
  "report_rows a net picks results = Inr (rows, chk) \<Longrightarrow> sorted (map float_or_inf rows)"
  by (auto simp: report_rows_def Let_def split: sum.splits if_splits)

lemma report_ascending_without_zero:
  assumes "report_rows a net picks results = Inr (rows, chk)"
    and "\<forall>r\<in>set rows. float r \<noteq> Some 0"
  shows "sorted (map (\<lambda>r. the (float r)) rows)"
proof -
  have key: "r \<in> set rows \<Longrightarrow> float_or_inf r = Num (the (float r))" for r
    using report_rows_present [OF assms(1)] assms(2)
    by (auto simp: float_or_inf_def split: option.splits)
  have "sorted (map float_or_inf rows)"
    using assms(1) by (rule report_sorted_by_key)
  moreover have "map float_or_inf rows = map (\<lambda>r. Num (the (float r))) rows"
    using key by simp
  ultimately have "sorted (map Num (map (\<lambda>r. the (float r)) rows))"
    by (simp add: comp_def)
  then show ?thesis
    by (induction "map (\<lambda>r. the (float r)) rows" arbitrary: rows) (auto simp: sorted_wrt_map)
qed

text \<open>
  Claim C10, evaluated. A float between zero and one passes the test \<open>v > 0\<close> of the
  first loop and is then truncated by \<open>int\<close>: the record has the float \<open>0\<close>, which is
  neither absent nor positive. The row passes the filter for any cutoff that is not
  negative, and its sort key is the infinity of the fallback.
\<close>

theorem fetch_float_zero_from_fraction:
  "fetch_float flt (Inr (PDict [(''floatShares'', PFloat (Finite (1/2)))])) t =
     \<lparr> symbol = t, float = Some 0, shortName = PNone, exchange = PNone, marketCap = PNone \<rparr>
   \<and> float_filter 10000000
       [\<lparr> symbol = t, float = Some 0, shortName = PNone, exchange = PNone, marketCap = PNone \<rparr>] [] =
       [\<lparr> symbol = t, float = Some 0, shortName = PNone, exchange = PNone, marketCap = PNone \<rparr>]
   \<and> float_or_inf
       \<lparr> symbol = t, float = Some 0, shortName = PNone, exchange = PNone, marketCap = PNone \<rparr> = Inf"
  by (simp add: fetch_float_def fetch_float_body_def primary_keys_def dict_get_def
      float_or_inf_def)

lemma sort_is_stable:
  "filter (\<lambda>r. float_or_inf r = k) (sort_key float_or_inf rows) =
   filter (\<lambda>r. float_or_inf r = k) rows"
  by (rule sort_key_stable)

text \<open>
  Claim C3, evaluated. In the world where the data provider reports a float of one half
  for \<open>CCC\<close>, the record of \<open>CCC\<close> has the float \<open>0\<close>, passes the filter, and is
  sorted by the key infinity: the report lists \<open>AAA\<close> with 5,000,000 before \<open>CCC\<close> with
  \<open>0\<close>, which is not ascending.
\<close>

theorem report_not_ascending_after_zero_float:
  "main (example_args 10000000 False 8) fraction_world
   = Inr \<lparr> fetched = [''AAA'', ''BBB'', ''CCC''], checked = [], report = [row_AAA, row_CCC_zero] \<rparr>
   \<and> map float [row_AAA, row_CCC_zero] = [Some 5000000, Some 0]"
proof -
  let ?a = "example_args 10000000 False 8"
  have world: "requests_get fraction_world = example_net" "completion1 fraction_world = [2, 0]"
    "emit fraction_world = (\<lambda>act. None)"
    by (simp_all add: fraction_world_def example_world_def)
  have A: "fetch_float_in fraction_world ''AAA'' = row_AAA"
    using example_fetch_AAA by (simp add: fetch_float_in_def fraction_world_def example_world_def)
  have B: "fetch_float_in fraction_world ''BBB'' = row_BBB"
    using example_fetch_BBB by (simp add: fetch_float_in_def fraction_world_def example_world_def)
  have C: "fetch_float_in fraction_world ''CCC'' = row_CCC_zero"
    by (simp add: fetch_float_in_def fraction_world_def example_world_def fetch_float_def
        fetch_float_body_def primary_keys_def dict_get_def row_CCC_zero_def)
  have results: "map (fetch_float_in fraction_world)
      (as_completed (completion1 fraction_world) [''AAA'', ''BBB'', ''CCC''])
      = [row_CCC_zero, row_AAA, row_BBB]"
    by (simp only: world example_completion1 list.map A B C)
  have rows: "report_rows ?a example_net picks [row_CCC_zero, row_AAA, row_BBB]
      = Inr ([row_AAA, row_CCC_zero], [])" for picks
    by (simp add: report_rows_def example_args_def row_AAA_def row_BBB_def row_CCC_zero_def
        float_or_inf_def)
  have "workers ?a = 8" "limit ?a = 0" "output_file ?a = ''low_float.csv''"
    by (simp_all add: example_args_def)
  then have "main ?a fraction_world =
      Inr \<lparr> fetched = [''AAA'', ''BBB'', ''CCC''], checked = [], report = [row_AAA, row_CCC_zero] \<rparr>"
    by (simp add: main_quiet [OF world(3)] world(1) example_listed take_limit_all results rows)
  moreover have "map float [row_AAA, row_CCC_zero] = [Some 5000000, Some 0]"
    by (simp add: row_AAA_def row_CCC_zero_def)
  ultimately show ?thesis
    by (rule conjI)
qed

section \<open>The eligibility check\<close>

lemma py_get_Inr: "py_get data k = Inr v \<longleftrightarrow> (\<exists>body. data = PDict body \<and> v = dict_get body k)"
  by (cases data) auto

lemma robinhood_has_symbol_body_total:
  "robinhood_has_symbol_body net t = Inl e \<Longrightarrow> \<not> robinhood_has_symbol net t"
  by (simp add: robinhood_has_symbol_def)

text \<open>
  Claim C4, as amended. \<open>robinhood_has_symbol\<close> never raises, and it is true exactly
  when the request returns a response whose status code is 200 and whose body parses to
  a dictionary with a truthy value under \<open>results\<close>. Every other status, a parse
  failure, a body that is not a dictionary and a network exception give false.
\<close>

theorem robinhood_has_symbol_iff:
  "robinhood_has_symbol net t =
     (\<exists>r body. net (ROBINHOOD_INSTRUMENTS t) = Inr r \<and> status_code r = 200
        \<and> r_json r = Inr (PDict body) \<and> truthy (dict_get body ''results''))"
proof (cases "net (ROBINHOOD_INSTRUMENTS t)")
  case (Inl e)
  then show ?thesis
    by (simp add: robinhood_has_symbol_def robinhood_has_symbol_body_def)
next
  case (Inr r)
  show ?thesis
  proof (cases "r_json r")
    case (Inl e)
    with Inr show ?thesis
      by (simp add: robinhood_has_symbol_def robinhood_has_symbol_body_def)
  next
    case json: (Inr data)
    show ?thesis
    proof (cases data)
      case (PDict body)
      with Inr json show ?thesis
        by (simp add: robinhood_has_symbol_def robinhood_has_symbol_body_def)
    qed (use Inr json in \<open>simp_all add: robinhood_has_symbol_def robinhood_has_symbol_body_def\<close>)
  qed
qed

theorem robinhood_has_symbol_iff_witness:
  "robinhood_has_symbol example_net ''BBB'' \<and> \<not> robinhood_has_symbol created_net ''AAA''"
proof -
  have "\<exists>r body. example_net (ROBINHOOD_INSTRUMENTS ''BBB'') = Inr r \<and> status_code r = 200
          \<and> r_json r = Inr (PDict body) \<and> truthy (dict_get body ''results'')"
    by (simp add: example_net_def ROBINHOOD_INSTRUMENTS_def NASDAQ_LISTED_URL_def
        OTHER_LISTED_URL_def dict_get_def)
  then have listed: "robinhood_has_symbol example_net ''BBB''"
    by (simp only: robinhood_has_symbol_iff)
  have "\<not> (\<exists>r body. created_net (ROBINHOOD_INSTRUMENTS ''AAA'') = Inr r \<and> status_code r = 200
          \<and> r_json r = Inr (PDict body) \<and> truthy (dict_get body ''results''))"
    by (simp add: created_net_def)
  then have "\<not> robinhood_has_symbol created_net ''AAA''"
    by (simp only: robinhood_has_symbol_iff not_False_eq_True)
  with listed show ?thesis
    by (rule conjI)
qed

text \<open>
  The claim as stated fails in both directions: a response \<open>201 Created\<close> with a
  non-empty list of results has a success status and a non-empty collection, and the
  check is false; a response \<open>200 OK\<close> whose \<open>results\<close> is the number 5 has no
  collection, and the check is true.
\<close>

theorem robinhood_has_symbol_counterexample:
  "spec_check_eligibility created_net ''AAA'' \<and> \<not> robinhood_has_symbol created_net ''AAA''
   \<and> \<not> spec_check_eligibility number_net ''AAA'' \<and> robinhood_has_symbol number_net ''AAA''"
  by (simp add: spec_check_eligibility_def robinhood_has_symbol_def
      robinhood_has_symbol_body_def created_net_def number_net_def success_status_def
      dict_get_def)

section \<open>The extraction of the float\<close>

lemma numeric_loop_find:
  "numeric_loop info ks =
     (case find (accepted_number info) ks of
        None \<Rightarrow> Inr None
      | Some k \<Rightarrow> (case py_int (dict_get info k) of Inl e \<Rightarrow> Inl e | Inr n \<Rightarrow> Inr (Some n)))"
  by (induction ks) (simp_all add: accepted_number_def Let_def)

lemma string_loop_find:
  "string_loop flt info ks =
     (case find (\<lambda>k. reparsed flt info k \<noteq> None) ks of
        Some k \<Rightarrow> reparsed flt info k
      | None \<Rightarrow> None)"
  by (induction ks) (auto simp: reparsed_def split: pyval.splits sum.splits)

lemma fetch_float_body_dict:
  "fetch_float_body flt (Inr (PDict info)) t =
     (case numeric_loop info primary_keys of
        Inl e \<Rightarrow> Inl e
      | Inr found \<Rightarrow>
          Inr \<lparr> symbol = t,
                float = (if found = None then string_loop flt info secondary_keys else found),
                shortName = dict_get info ''shortName'', exchange = dict_get info ''exchange'',
                marketCap = dict_get info ''marketCap'' \<rparr>)"
  by (cases info) (auto simp: fetch_float_body_def Let_def split: sum.splits)

text \<open>
  Claim C9, as amended. For an \<open>info\<close> dictionary, \<open>fetch_float\<close> returns what the
  specification describes, the share count found by the two prioritized searches and the
  three other fields read whether or not a count was found, unless the conversion of the
  first accepted number raises (the number is an infinity): then the record has none of
  the optional fields.
\<close>

theorem fetch_float_extraction:
  "fetch_float flt (Inr (PDict info)) t =
     (if conversion_raises info then failed_record t else spec_enrich flt info t)"
proof (cases "find (accepted_number info) primary_keys")
  case None
  then show ?thesis
    by (simp add: fetch_float_def fetch_float_body_dict numeric_loop_find string_loop_find
        conversion_raises_def spec_enrich_def spec_float_count_def)
next
  case (Some k)
  then show ?thesis
    by (cases "py_int (dict_get info k)")
      (simp_all add: fetch_float_def fetch_float_body_dict numeric_loop_find
        conversion_raises_def spec_enrich_def spec_float_count_def)
qed

theorem fetch_float_extraction_witness:
  "\<not> conversion_raises [(''sharesOutstanding'', PStr ''50,000,000''), (''exchange'', PStr ''NMS'')]
   \<and> fetch_float example_float
       (Inr (PDict [(''sharesOutstanding'', PStr ''50,000,000''), (''exchange'', PStr ''NMS'')])) ''BBB''
     = row_BBB
   \<and> conversion_raises [(''floatShares'', PFloat PosInf), (''shortName'', PStr ''Alpha Inc'')]
   \<and> fetch_float example_float
       (Inr (PDict [(''floatShares'', PFloat PosInf), (''shortName'', PStr ''Alpha Inc'')])) ''AAA''
     = failed_record ''AAA''"
proof -
  let ?b = "[(''sharesOutstanding'', PStr ''50,000,000''), (''exchange'', PStr ''NMS'')]"
  let ?i = "[(''floatShares'', PFloat PosInf), (''shortName'', PStr ''Alpha Inc'')]"
  have quiet: "\<not> conversion_raises ?b"
    by (simp add: conversion_raises_def accepted_number_def primary_keys_def dict_get_def)
  have spec: "spec_enrich example_float ?b ''BBB'' = row_BBB"
    by (simp add: spec_enrich_def spec_float_count_def accepted_number_def reparsed_def
        primary_keys_def secondary_keys_def dict_get_def parse_count_def strip_commas_def
        example_float_def row_BBB_def)
  have raises: "conversion_raises ?i"
    by (simp add: conversion_raises_def accepted_number_def primary_keys_def dict_get_def)
  from fetch_float_extraction [of example_float ?b "''BBB''"] quiet spec
  have found: "fetch_float example_float (Inr (PDict ?b)) ''BBB'' = row_BBB"
    by (simp only: if_False)
  from fetch_float_extraction [of example_float ?i "''AAA''"] raises
  have lost: "fetch_float example_float (Inr (PDict ?i)) ''AAA'' = failed_record ''AAA''"
    by (simp only: if_True)
  show ?thesis
    by (intro conjI quiet found raises lost)
qed

lemma py_int_raises:
  assumes "is_int_or_float v" and "gt_zero v"
  shows "(\<exists>e. py_int v = Inl e) \<longleftrightarrow> v = PFloat PosInf"
proof (cases v)
  case (PFloat f)
  with assms show ?thesis
    by (cases f) auto
qed (use assms in auto)

lemma conversion_raises_iff:
  "conversion_raises info \<longleftrightarrow>
     (\<exists>k. find (accepted_number info) primary_keys = Some k \<and> dict_get info k = PFloat PosInf)"
proof (cases "find (accepted_number info) primary_keys")
  case None
  then show ?thesis
    by (simp add: conversion_raises_def)
next
  case (Some k)
  then have "accepted_number info k"
    by (auto simp: find_Some_iff)
  then have "(\<exists>e. py_int (dict_get info k) = Inl e) \<longleftrightarrow> dict_get info k = PFloat PosInf"
    by (simp add: accepted_number_def py_int_raises)
  with Some show ?thesis
    by (auto simp: conversion_raises_def split: sum.splits)
qed

text \<open>
  The claim as stated fails where the first accepted number is an infinity: the display
  name is present in \<open>info\<close>, and the record does not have it.
\<close>

theorem fetch_float_extraction_counterexample:
  "shortName (fetch_float example_float
      (Inr (PDict [(''floatShares'', PFloat PosInf), (''shortName'', PStr ''Alpha Inc'')])) ''AAA'')
     = PNone
   \<and> shortName (spec_enrich example_float
        [(''floatShares'', PFloat PosInf), (''shortName'', PStr ''Alpha Inc'')] ''AAA'')
     = PStr ''Alpha Inc''"
  by (simp add: fetch_float_def fetch_float_body_def primary_keys_def dict_get_def
      failed_record_def spec_enrich_def)

section \<open>The symbol source\<close>




lemma raise_for_status_source_error:
  "net url = Inr r \<Longrightarrow> (raise_for_status r = Inr ()) = (source_error net url = None)"
  by (simp add: raise_for_status_def source_error_def)




section \<open>Failed lookups\<close>

lemma fetch_float_not_a_dict:
  assumes "truthy v" and "\<forall>info. v \<noteq> PDict info"
  shows "fetch_float_body flt (Inr v) t = Inl AttributeError"
  using assms by (cases v) (simp_all add: fetch_float_body_def)

lemma fetch_float_conversion_raises:
  "conversion_raises info \<Longrightarrow> \<exists>e. fetch_float_body flt (Inr (PDict info)) t = Inl e"
  by (auto simp: fetch_float_body_dict numeric_loop_find conversion_raises_def
      split: option.splits sum.splits)

text \<open>
  Claim C2. \<open>fetch_float\<close> never raises: it returns a record for every ticker, and
  whenever the body of its \<open>try\<close> raises, because the network call raises, because
  \<open>info\<close> is not a dictionary, or because a conversion raises, the record has no float
  and no other optional field. A symbol whose lookup failed is in no row of the report
  of a run. And no failed lookup ends a run: when the symbol lists are retrieved, the
  pool size is positive, and every writing statement returns, those that write or print
  a row at least on the records of the lookups that did not fail, then the run ends
  normally, however many lookups failed.
\<close>

theorem lookup_failure_is_absorbed:
  "fetch_float flt (Inl e) t =
      \<lparr> symbol = t, float = None, shortName = PNone, exchange = PNone, marketCap = PNone \<rparr>
   \<and> (truthy v \<and> (\<forall>info. v \<noteq> PDict info) \<longrightarrow>
        fetch_float flt (Inr v) t =
          \<lparr> symbol = t, float = None, shortName = PNone, exchange = PNone, marketCap = PNone \<rparr>)
   \<and> (conversion_raises info \<longrightarrow>
        fetch_float flt (Inr (PDict info)) t =
          \<lparr> symbol = t, float = None, shortName = PNone, exchange = PNone, marketCap = PNone \<rparr>)
   \<and> (\<forall>e. fetch_float_body flt yf t = Inl e \<longrightarrow>
        fetch_float flt yf t =
          \<lparr> symbol = t, float = None, shortName = PNone, exchange = PNone, marketCap = PNone \<rparr>)
   \<and> (\<forall>out. main a w = Inr out \<longrightarrow>
        (\<forall>s e. fetch_float_body (float_of_str w) (yf_info w s) s = Inl e \<longrightarrow>
           s \<notin> symbol ` set (report out)))
   \<and> (\<forall>listed. download_symbol_list (requests_get w) = Inr listed \<and> 0 < workers a
          \<and> (\<forall>act. (\<forall>r. act \<noteq> WriteRow r \<and> act \<noteq> PrintRow r) \<longrightarrow> emit w act = None)
          \<and> (\<forall>s. (\<forall>e. fetch_float_body (float_of_str w) (yf_info w s) s \<noteq> Inl e) \<longrightarrow>
                emit w (WriteRow (fetch_float_in w s)) = None
                \<and> emit w (PrintRow (fetch_float_in w s)) = None) \<longrightarrow>
        (\<exists>out. main a w = Inr out))"
proof (intro conjI allI impI)
  show "fetch_float flt (Inl e) t =
      \<lparr> symbol = t, float = None, shortName = PNone, exchange = PNone, marketCap = PNone \<rparr>"
    by (simp add: fetch_float_def fetch_float_body_def failed_record_def)
next
  assume "truthy v \<and> (\<forall>info. v \<noteq> PDict info)"
  then have "fetch_float_body flt (Inr v) t = Inl AttributeError"
    by (simp add: fetch_float_not_a_dict)
  then show "fetch_float flt (Inr v) t =
      \<lparr> symbol = t, float = None, shortName = PNone, exchange = PNone, marketCap = PNone \<rparr>"
    by (simp add: fetch_float_def failed_record_def)
next
  assume "conversion_raises info"
  then obtain e' where "fetch_float_body flt (Inr (PDict info)) t = Inl e'"
    using fetch_float_conversion_raises by blast
  then show "fetch_float flt (Inr (PDict info)) t =
      \<lparr> symbol = t, float = None, shortName = PNone, exchange = PNone, marketCap = PNone \<rparr>"
    by (simp add: fetch_float_def failed_record_def)
next
  fix e'
  assume "fetch_float_body flt yf t = Inl e'"
  then show "fetch_float flt yf t =
      \<lparr> symbol = t, float = None, shortName = PNone, exchange = PNone, marketCap = PNone \<rparr>"
    by (simp add: fetch_float_def failed_record_def)
next
  fix out s e'
  assume "main a w = Inr out"
    and "fetch_float_body (float_of_str w) (yf_info w s) s = Inl e'"
  then show "s \<notin> symbol ` set (report out)"
    by (rule failed_lookup_not_reported)
next
  fix listed
  assume h: "download_symbol_list (requests_get w) = Inr listed \<and> 0 < workers a
          \<and> (\<forall>act. (\<forall>r. act \<noteq> WriteRow r \<and> act \<noteq> PrintRow r) \<longrightarrow> emit w act = None)
          \<and> (\<forall>s. (\<forall>e. fetch_float_body (float_of_str w) (yf_info w s) s \<noteq> Inl e) \<longrightarrow>
                emit w (WriteRow (fetch_float_in w s)) = None
                \<and> emit w (PrintRow (fetch_float_in w s)) = None)"
  have "\<forall>s. float (fetch_float_in w s) \<noteq> None \<longrightarrow>
        emit w (WriteRow (fetch_float_in w s)) = None \<and> emit w (PrintRow (fetch_float_in w s)) = None"
  proof (intro allI impI)
    fix s
    assume "float (fetch_float_in w s) \<noteq> None"
    then have "float (fetch_float (float_of_str w) (yf_info w s) s) \<noteq> None"
      by (simp add: fetch_float_in_def)
    then have "\<forall>e. fetch_float_body (float_of_str w) (yf_info w s) s \<noteq> Inl e"
      using float_present_not_raised by blast
    with h show "emit w (WriteRow (fetch_float_in w s)) = None
        \<and> emit w (PrintRow (fetch_float_in w s)) = None"
      by blast
  qed
  with h show "\<exists>out. main a w = Inr out"
    by (intro main_succeeds [of w listed a]) blast+
qed

theorem lookup_failure_is_absorbed_witness:
  "fetch_float example_float (Inl ConnectionError) ''CCC'' =
       \<lparr> symbol = ''CCC'', float = None, shortName = PNone, exchange = PNone, marketCap = PNone \<rparr>
   \<and> truthy (PStr ''no data'')
   \<and> fetch_float example_float (Inr (PStr ''no data'')) ''CCC'' =
       \<lparr> symbol = ''CCC'', float = None, shortName = PNone, exchange = PNone, marketCap = PNone \<rparr>
   \<and> conversion_raises [(''floatShares'', PFloat PosInf), (''shortName'', PStr ''Alpha Inc'')]
   \<and> fetch_float example_float
        (Inr (PDict [(''floatShares'', PFloat PosInf), (''shortName'', PStr ''Alpha Inc'')])) ''CCC'' =
       \<lparr> symbol = ''CCC'', float = None, shortName = PNone, exchange = PNone, marketCap = PNone \<rparr>
   \<and> fetch_float_body example_float (example_yf ''CCC'') ''CCC'' = Inl ConnectionError
   \<and> fetch_float example_float (example_yf ''CCC'') ''CCC'' =
       \<lparr> symbol = ''CCC'', float = None, shortName = PNone, exchange = PNone, marketCap = PNone \<rparr>
   \<and> main (example_args 10000000 False 8) example_world =
       Inr \<lparr> fetched = [''AAA'', ''BBB'', ''CCC''], checked = [], report = [row_AAA] \<rparr>
   \<and> ''CCC'' \<notin> symbol ` set [row_AAA]
   \<and> download_symbol_list (requests_get picky_world) = Inr [''AAA'', ''BBB'', ''CCC'']
   \<and> 0 < workers (example_args 10000000 False 8)
   \<and> emit picky_world (WriteRow (failed_record ''CCC'')) = Some ValueError
   \<and> (\<exists>out. main (example_args 10000000 False 8) picky_world = Inr out)"
proof -
  let ?a = "example_args 10000000 False 8"
  let ?i = "[(''floatShares'', PFloat PosInf), (''shortName'', PStr ''Alpha Inc'')]"
  let ?out = "\<lparr> fetched = [''AAA'', ''BBB'', ''CCC''], checked = [], report = [row_AAA] \<rparr>"
  note plain = lookup_failure_is_absorbed [of example_float ConnectionError "''CCC''"
      "PStr ''no data''" ?i "example_yf ''CCC''" ?a example_world]
  note picky = lookup_failure_is_absorbed [of example_float ConnectionError "''CCC''"
      "PStr ''no data''" ?i "example_yf ''CCC''" ?a picky_world]
  have w: "float_of_str example_world = example_float" "yf_info example_world = example_yf"
    by (simp_all add: example_world_def)
  have p: "float_of_str picky_world = example_float" "yf_info picky_world = example_yf"
    "requests_get picky_world = example_net"
    by (simp_all add: picky_world_def example_world_def)
  have c1: "fetch_float example_float (Inl ConnectionError) ''CCC'' =
       \<lparr> symbol = ''CCC'', float = None, shortName = PNone, exchange = PNone, marketCap = PNone \<rparr>"
    by (rule plain [THEN conjunct1])
  have str: "truthy (PStr ''no data'')" and other: "\<forall>info. PStr ''no data'' \<noteq> PDict info"
    by simp_all
  have c2: "fetch_float example_float (Inr (PStr ''no data'')) ''CCC'' =
       \<lparr> symbol = ''CCC'', float = None, shortName = PNone, exchange = PNone, marketCap = PNone \<rparr>"
    by (rule plain [THEN conjunct2, THEN conjunct1, rule_format, OF conjI [OF str other]])
  have inf: "conversion_raises ?i"
    by (simp add: conversion_raises_def accepted_number_def primary_keys_def dict_get_def)
  have c3: "fetch_float example_float (Inr (PDict ?i)) ''CCC'' =
       \<lparr> symbol = ''CCC'', float = None, shortName = PNone, exchange = PNone, marketCap = PNone \<rparr>"
    by (rule plain [THEN conjunct2, THEN conjunct2, THEN conjunct1, rule_format, OF inf])
  have body: "fetch_float_body example_float (example_yf ''CCC'') ''CCC'' = Inl ConnectionError"
    by (simp add: fetch_float_body_def example_yf_def)
  have c4: "fetch_float example_float (example_yf ''CCC'') ''CCC'' =
       \<lparr> symbol = ''CCC'', float = None, shortName = PNone, exchange = PNone, marketCap = PNone \<rparr>"
    by (rule plain [THEN conjunct2, THEN conjunct2, THEN conjunct2, THEN conjunct1,
          rule_format, OF body])
  have body_in: "fetch_float_body (float_of_str example_world) (yf_info example_world ''CCC'') ''CCC''
      = Inl ConnectionError"
    using body by (simp only: w)
  have "''CCC'' \<notin> symbol ` set (report ?out)"
    by (rule plain [THEN conjunct2, THEN conjunct2, THEN conjunct2, THEN conjunct2, THEN conjunct1,
          rule_format, OF example_run_plain body_in])
  then have c5: "''CCC'' \<notin> symbol ` set [row_AAA]"
    by simp
  have listed: "download_symbol_list (requests_get picky_world) = Inr [''AAA'', ''BBB'', ''CCC'']"
    by (simp only: p example_listed)
  have pool: "0 < workers ?a"
    by (simp add: example_args_def)
  have raises: "emit picky_world (WriteRow (failed_record ''CCC'')) = Some ValueError"
    by (simp add: picky_world_def)
  have quiet: "\<forall>act. (\<forall>r. act \<noteq> WriteRow r \<and> act \<noteq> PrintRow r) \<longrightarrow> emit picky_world act = None"
    by (auto simp: picky_world_def)
  have rows: "\<forall>s. (\<forall>e. fetch_float_body (float_of_str picky_world) (yf_info picky_world s) s \<noteq> Inl e)
      \<longrightarrow> emit picky_world (WriteRow (fetch_float_in picky_world s)) = None
        \<and> emit picky_world (PrintRow (fetch_float_in picky_world s)) = None"
  proof (intro allI impI)
    fix s
    assume returned: "\<forall>e. fetch_float_body (float_of_str picky_world) (yf_info picky_world s) s \<noteq> Inl e"
    have "fetch_float_in picky_world s \<noteq> failed_record ''CCC''"
    proof
      assume same: "fetch_float_in picky_world s = failed_record ''CCC''"
      have "symbol (fetch_float_in picky_world s) = s"
        by (simp add: fetch_float_in_def symbol_fetch_float)
      with same have "s = ''CCC''"
        by (simp add: failed_record_def)
      with returned body show False
        by (simp add: p)
    qed
    then show "emit picky_world (WriteRow (fetch_float_in picky_world s)) = None
        \<and> emit picky_world (PrintRow (fetch_float_in picky_world s)) = None"
      by (simp add: picky_world_def)
  qed
  have c6: "\<exists>out. main ?a picky_world = Inr out"
    by (rule picky [THEN conjunct2, THEN conjunct2, THEN conjunct2, THEN conjunct2, THEN conjunct2,
          rule_format, OF conjI [OF listed conjI [OF pool conjI [OF quiet rows]]]])
  show ?thesis
    by (intro conjI c1 str c2 inf c3 body c4 example_run_plain c5 listed pool raises c6)
qed

section \<open>How a run fails\<close>

lemma main_source_fails:
  assumes "emit w PrintDownloading = None"
    and "source_error (requests_get w) NASDAQ_LISTED_URL = Some e
      \<or> source_error (requests_get w) NASDAQ_LISTED_URL = None
        \<and> source_error (requests_get w) OTHER_LISTED_URL = Some e"
  shows "main a w = Inl e"
proof -
  from assms(2) have "download_symbol_list (requests_get w) = Inl e"
    by (simp only: download_symbol_list_fails)
  with assms(1) show ?thesis
    by (simp add: main_def)
qed

text \<open>
  Claim C8, as amended. The retrieval of the symbol source is fatal for the run: when
  the request for the first directory raises or gets a status between 400 and 599, or
  the first is retrieved and the second fails so, the run ends with that exception, and
  there is no fallback to the directory that was retrieved. And a run ends with an
  exception only by such a failure of the symbol source, by the \<open>ValueError\<close> of a pool
  size that is not positive, or by the exception of a writing statement (the CSV file,
  the console, a progress bar); where that statement writes or prints a row, the row is
  the record of a lookup and has a float, so no failed lookup of a symbol ends a run.
\<close>

theorem run_ends_only_by_source_pool_or_output:
  "(emit w PrintDownloading = None
      \<and> (source_error (requests_get w) NASDAQ_LISTED_URL = Some e
         \<or> source_error (requests_get w) NASDAQ_LISTED_URL = None
           \<and> source_error (requests_get w) OTHER_LISTED_URL = Some e) \<longrightarrow>
      main a w = Inl e)
   \<and> (main a w = Inl e \<longrightarrow>
        source_error (requests_get w) NASDAQ_LISTED_URL = Some e
        \<or> source_error (requests_get w) NASDAQ_LISTED_URL = None
          \<and> source_error (requests_get w) OTHER_LISTED_URL = Some e
        \<or> workers a \<le> 0 \<and> e = ValueError
        \<or> (\<exists>act. emit w act = Some e
              \<and> (\<forall>r. act = WriteRow r \<or> act = PrintRow r \<longrightarrow>
                    (\<exists>s. r = fetch_float_in w s) \<and> float r \<noteq> None)))"
proof (intro conjI impI)
  assume "emit w PrintDownloading = None
      \<and> (source_error (requests_get w) NASDAQ_LISTED_URL = Some e
         \<or> source_error (requests_get w) NASDAQ_LISTED_URL = None
           \<and> source_error (requests_get w) OTHER_LISTED_URL = Some e)"
  then show "main a w = Inl e"
    using main_source_fails by blast
next
  assume "main a w = Inl e"
  then show "source_error (requests_get w) NASDAQ_LISTED_URL = Some e
        \<or> source_error (requests_get w) NASDAQ_LISTED_URL = None
          \<and> source_error (requests_get w) OTHER_LISTED_URL = Some e
        \<or> workers a \<le> 0 \<and> e = ValueError
        \<or> (\<exists>act. emit w act = Some e
              \<and> (\<forall>r. act = WriteRow r \<or> act = PrintRow r \<longrightarrow>
                    (\<exists>s. r = fetch_float_in w s) \<and> float r \<noteq> None))"
    by (rule main_fails_only_by)
qed

lemma example_sources:
  "source_error example_net NASDAQ_LISTED_URL = None"
  "source_error example_net OTHER_LISTED_URL = None"
  by (simp_all add: source_error_def example_net_def NASDAQ_LISTED_URL_def OTHER_LISTED_URL_def)

lemma refusing_run:
  "main (example_args 10000000 False 8) refusing_world = Inl ValueError"
proof -
  let ?a = "example_args 10000000 False 8"
  have w: "requests_get refusing_world = example_net" "completion1 refusing_world = [2, 0]"
    "float_of_str refusing_world = example_float" "yf_info refusing_world = example_yf"
    by (simp_all add: refusing_world_def example_world_def)
  have e: "emit refusing_world = (\<lambda>act. if act = WriteRow row_AAA then Some ValueError else None)"
    by (simp add: refusing_world_def)
  have same: "fetch_float_in refusing_world = fetch_float_in example_world"
    by (simp add: fetch_float_in_def fun_eq_iff w example_world_def)
  have results: "map (fetch_float_in refusing_world)
      (as_completed (completion1 refusing_world) [''AAA'', ''BBB'', ''CCC''])
      = [failed_record ''CCC'', row_AAA, row_BBB]"
    using example_results by (simp add: same w(2) example_world_def)
  have written: "write_report refusing_world ?a [row_AAA] = Some ValueError"
    by (simp add: write_report_def write_csv_def e)
  have "workers ?a = 8" "limit ?a = 0" "\<not> robinhood ?a"
    by (simp_all add: example_args_def)
  then show ?thesis
    by (simp add: main_def run_batch_eq announce_check_def e w(1) example_listed take_limit_all
        results example_report_plain written)
qed

theorem run_ends_only_by_source_pool_or_output_witness:
  "emit (example_world \<lparr> requests_get := unavailable_net \<rparr>) PrintDownloading = None
   \<and> source_error unavailable_net NASDAQ_LISTED_URL = None
   \<and> source_error unavailable_net OTHER_LISTED_URL = Some (HTTPError 503)
   \<and> main (example_args 10000000 False 8) (example_world \<lparr> requests_get := unavailable_net \<rparr>)
     = Inl (HTTPError 503)
   \<and> main (example_args 10000000 False 8) refusing_world = Inl ValueError
   \<and> emit refusing_world (WriteRow row_AAA) = Some ValueError
   \<and> (\<exists>act. emit refusing_world act = Some ValueError
          \<and> (\<forall>r. act = WriteRow r \<or> act = PrintRow r \<longrightarrow>
                (\<exists>s. r = fetch_float_in refusing_world s) \<and> float r \<noteq> None))"
proof -
  let ?a = "example_args 10000000 False 8"
  let ?w = "example_world \<lparr> requests_get := unavailable_net \<rparr>"
  have started: "emit ?w PrintDownloading = None"
    by (simp add: example_world_def)
  have first: "source_error unavailable_net NASDAQ_LISTED_URL = None"
    by (simp add: source_error_def unavailable_net_def example_net_def NASDAQ_LISTED_URL_def
        OTHER_LISTED_URL_def)
  have second: "source_error unavailable_net OTHER_LISTED_URL = Some (HTTPError 503)"
    by (simp add: source_error_def unavailable_net_def)
  have net: "requests_get ?w = unavailable_net"
    by simp
  have "source_error (requests_get ?w) NASDAQ_LISTED_URL = Some (HTTPError 503)
      \<or> source_error (requests_get ?w) NASDAQ_LISTED_URL = None
        \<and> source_error (requests_get ?w) OTHER_LISTED_URL = Some (HTTPError 503)"
    using first second by (simp only: net simp_thms)
  with started have fatal: "main ?a ?w = Inl (HTTPError 503)"
    by (intro run_ends_only_by_source_pool_or_output [THEN conjunct1, rule_format] conjI)
  have raises: "emit refusing_world (WriteRow row_AAA) = Some ValueError"
    by (simp add: refusing_world_def)
  have sources: "source_error (requests_get refusing_world) NASDAQ_LISTED_URL = None"
    "source_error (requests_get refusing_world) OTHER_LISTED_URL = None"
    by (simp_all add: refusing_world_def example_world_def example_sources)
  have pool: "\<not> workers ?a \<le> 0"
    by (simp add: example_args_def)
  from run_ends_only_by_source_pool_or_output [THEN conjunct2, rule_format, OF refusing_run]
  have "\<exists>act. emit refusing_world act = Some ValueError
          \<and> (\<forall>r. act = WriteRow r \<or> act = PrintRow r \<longrightarrow>
                (\<exists>s. r = fetch_float_in refusing_world s) \<and> float r \<noteq> None)"
    by (simp only: sources pool simp_thms option.distinct)
  then show ?thesis
    by (intro conjI started first second fatal refusing_run raises)
qed

text \<open>
  The claim as stated fails twice. With both directories retrieved and every writing
  statement returning, a pool size of zero ends the run with \<open>ValueError\<close>, which is
  neither a failure of the symbol source nor of the output. And a directory that answers
  \<open>304 Not Modified\<close>, which is not a success status, does not fail the retrieval: the
  symbols of the other directory alone are returned.
\<close>

theorem main_fails_counterexample:
  "download_symbol_list (requests_get example_world) = Inr [''AAA'', ''BBB'', ''CCC'']
   \<and> emit example_world = (\<lambda>act. None)
   \<and> main (example_args 10000000 False 0) example_world = Inl ValueError
   \<and> not_modified_net OTHER_LISTED_URL =
       Inr \<lparr> status_code = 304, r_text = [], r_json = Inl JSONDecodeError \<rparr>
   \<and> \<not> success_status 304
   \<and> download_symbol_list not_modified_net = Inr [''AAA'', ''BBB'']"
proof -
  have net: "requests_get example_world = example_net"
    by (simp add: example_world_def)
  have listed: "download_symbol_list (requests_get example_world) = Inr [''AAA'', ''BBB'', ''CCC'']"
    by (simp only: net example_listed)
  have "workers (example_args 10000000 False 0) = 0"
    by (simp add: example_args_def)
  with listed have stopped: "main (example_args 10000000 False 0) example_world = Inl ValueError"
    by (simp add: main_quiet [OF example_quiet])
  have answer: "not_modified_net OTHER_LISTED_URL =
       Inr \<lparr> status_code = 304, r_text = [], r_json = Inl JSONDecodeError \<rparr>"
    by (simp add: not_modified_net_def)
  have status: "\<not> success_status 304"
    by (simp add: success_status_def)
  have partial: "download_symbol_list not_modified_net = Inr [''AAA'', ''BBB'']"
    by (simp add: download_symbol_list_def not_modified_net_def example_net_def
        NASDAQ_LISTED_URL_def OTHER_LISTED_URL_def raise_for_status_def splitlines_def
        is_linebreak_def startswith_def strip_def is_space_def)
  show ?thesis
    by (intro conjI listed example_quiet stopped answer status partial)
qed

end
